theory Spec2Isabelle
  imports Complex_Main
begin

section \<open>Numbers, rounding and errors\<close>

text \<open>
  The calculation chain of \<^verbatim>\<open>backend/main.py\<close> works on Python floats. The embedding
  computes with exact rationals instead: every arithmetic operation is the mathematical
  one, and only the explicit calls of \<^verbatim>\<open>round(x, n)\<close> lose precision. Python rounds to
  \<open>n\<close> decimals with ties going to the even neighbour.
\<close>

definition round_half_even :: "rat \<Rightarrow> int" where
  "round_half_even x =
     (let f = \<lfloor>x\<rfloor>; d = x - of_int f
      in if d < 1 / 2 then f
         else if 1 / 2 < d then f + 1
         else if even f then f else f + 1)"

definition py_round :: "rat \<Rightarrow> nat \<Rightarrow> rat" where
  "py_round x n = of_int (round_half_even (x * 10 ^ n)) / 10 ^ n"

text \<open>
  A division whose denominator depends on the request raises \<^verbatim>\<open>ZeroDivisionError\<close> when
  that denominator is zero. Divisions by numeric constants of the program (100, 8760,
  0.269, 0.85, 2, 60, the expected outage hours 652.5 / 60 and powers of 1.06) are
  written with the plain \<open>/\<close>.
\<close>

datatype py_error = ZeroDivisionError

definition py_div :: "rat \<Rightarrow> rat \<Rightarrow> py_error + rat" where
  "py_div a b = (if b = 0 then Inl ZeroDivisionError else Inr (a / b))"

fun bind_err :: "py_error + 'a \<Rightarrow> ('a \<Rightarrow> py_error + 'b) \<Rightarrow> py_error + 'b" where
  "bind_err (Inl e) k = Inl e"
| "bind_err (Inr v) k = k v"

section \<open>Data model\<close>

record facility_input =
  facility_name :: string
  facility_type :: string
  location :: string
  peak_demand_kw :: rat
  annual_consumption_kwh :: rat
  critical_load_percent :: rat
  essential_load_percent :: rat
  backup_duration_hours :: rat
  grid_connected :: bool
  include_solar :: bool
  include_battery :: bool
  include_generator :: bool

text \<open>The \<^verbatim>\<open>Field\<close> constraints of \<^verbatim>\<open>FacilityInput\<close> (gt=0, ge=0, le=100).\<close>

definition valid_facility :: "facility_input \<Rightarrow> bool" where
  "valid_facility facility \<longleftrightarrow>
     0 < peak_demand_kw facility \<and>
     0 < annual_consumption_kwh facility \<and>
     0 \<le> critical_load_percent facility \<and> critical_load_percent facility \<le> 100 \<and>
     0 \<le> essential_load_percent facility \<and> essential_load_percent facility \<le> 100 \<and>
     0 < backup_duration_hours facility"

text \<open>
  The dictionary returned by \<^verbatim>\<open>analyze_load\<close>. Its keys \<^verbatim>\<open>peak_demand_kw\<close> and
  \<^verbatim>\<open>annual_consumption_kwh\<close> carry the prefix \<open>la_\<close> here, the names being taken by the
  fields of the facility.
\<close>

record load_analysis =
  la_peak_demand_kw :: rat
  average_demand_kw :: rat
  critical_load_kw :: rat
  essential_load_kw :: rat
  non_critical_load_kw :: rat
  backup_load_kw :: rat
  load_factor :: rat
  la_annual_consumption_kwh :: rat

record microgrid_design =
  solar_pv_kw :: rat
  battery_kw :: rat
  battery_kwh :: rat
  generator_kw :: rat
  inverter_kw :: rat
  total_generation_kw :: rat
  renewable_fraction :: rat
  critical_load_coverage :: rat

record cost_estimate =
  solar_pv_cost :: rat
  battery_cost :: rat
  generator_cost :: rat
  inverter_cost :: rat
  bos_cost :: rat
  installation_cost :: rat
  total_capital_cost :: rat
  annual_om_cost :: rat
  cost_per_kw :: rat

record financial_analysis =
  lcoe :: rat
  simple_payback_years :: rat
  npv :: rat
  irr :: rat
  annual_savings :: rat
  federal_itc :: rat
  total_incentives :: rat
  net_cost_after_incentives :: rat

record reliability_assessment =
  ra_backup_duration_hours :: rat
  critical_load_coverage_percent :: rat
  expected_outage_hours_per_year :: rat
  avoided_outage_cost :: rat
  reliability_improvement_percent :: rat

text \<open>
  \<^verbatim>\<open>generate_recommendations\<close> formats sentences with f-strings. A recommendation is
  kept here as the kind of sentence together with the numbers interpolated into it, in
  the order of the source text.
\<close>

datatype recommendation =
  SolarRec rat rat
  | BatteryRec rat rat
  | GeneratorRec rat
  | PaybackRec rat rat
  | NpvRec rat
  | ReliabilityRec rat
  | OutageCostRec rat
  | GridFormingRec

record full_analysis_result =
  facility :: load_analysis
  design :: microgrid_design
  costs :: cost_estimate
  financial :: financial_analysis
  reliability :: reliability_assessment
  recommendations :: "recommendation list"

section \<open>Load Analyzer\<close>

definition analyze_load :: "facility_input \<Rightarrow> py_error + load_analysis" where
  "analyze_load fac =
     (let critical = peak_demand_kw fac * (critical_load_percent fac / 100);
          essential = peak_demand_kw fac * (essential_load_percent fac / 100);
          non_critical = peak_demand_kw fac - critical - essential;
          hours_per_year = 8760
      in bind_err (py_div (annual_consumption_kwh fac) (peak_demand_kw fac * hours_per_year))
           (\<lambda>lf.
              let avg_demand_kw = annual_consumption_kwh fac / hours_per_year;
                  backup = critical + essential
              in Inr \<lparr>la_peak_demand_kw = peak_demand_kw fac,
                      average_demand_kw = py_round avg_demand_kw 2,
                      critical_load_kw = py_round critical 2,
                      essential_load_kw = py_round essential 2,
                      non_critical_load_kw = py_round non_critical 2,
                      backup_load_kw = py_round backup 2,
                      load_factor = py_round lf 3,
                      la_annual_consumption_kwh = annual_consumption_kwh fac\<rparr>))"

section \<open>System Sizer\<close>

definition solar_capacity_factor :: rat where
  "solar_capacity_factor = 0.269"

definition battery_round_trip_efficiency :: rat where
  "battery_round_trip_efficiency = 0.85"

definition size_system :: "facility_input \<Rightarrow> load_analysis \<Rightarrow> py_error + microgrid_design" where
  "size_system fac la =
     (let backup = backup_load_kw la;
          critical = critical_load_kw la;
          solar =
            (if include_solar fac
             then min (py_round (average_demand_kw la * 1.3 / solar_capacity_factor) 1)
                      (peak_demand_kw fac * 1.5)
             else 0);
          battery_hours = min 4 (backup_duration_hours fac);
          b_kwh =
            (if include_battery fac
             then py_round (backup * battery_hours / battery_round_trip_efficiency) 1
             else 0);
          b_kw = (if include_battery fac then py_round (backup * 1.1) 1 else 0);
          generator = (if include_generator fac then py_round (backup * 1.2) 1 else 0);
          inverter = py_round (max (max solar b_kw) backup * 1.1) 1;
          total_generation = solar + generator
      in bind_err
           (if 0 < total_generation
            then bind_err (py_div solar total_generation) (\<lambda>q. Inr (py_round q 3))
            else Inr 0)
           (\<lambda>renewable.
              bind_err
                (if 0 < critical
                 then bind_err (py_div (b_kw + generator) critical) (\<lambda>q. Inr (min 1 q))
                 else Inr 1)
                (\<lambda>coverage.
                   Inr \<lparr>solar_pv_kw = solar,
                         battery_kw = b_kw,
                         battery_kwh = b_kwh,
                         generator_kw = generator,
                         inverter_kw = inverter,
                         total_generation_kw = py_round total_generation 1,
                         renewable_fraction = py_round renewable 3,
                         critical_load_coverage = py_round coverage 3\<rparr>)))"

section \<open>Cost Estimator\<close>

text \<open>The table \<^verbatim>\<open>default_costs\<close>.\<close>

definition solar_pv_per_kw :: rat where "solar_pv_per_kw = 1551"
definition battery_per_kwh :: rat where "battery_per_kwh = 485"
definition generator_per_kw :: rat where "generator_per_kw = 800"
definition inverter_per_kw :: rat where "inverter_per_kw = 150"
definition bos_percent :: rat where "bos_percent = 0.15"
definition installation_percent :: rat where "installation_percent = 0.20"
definition om_percent :: rat where "om_percent = 0.015"

definition equipment_cost :: "microgrid_design \<Rightarrow> rat" where
  "equipment_cost d =
     solar_pv_kw d * solar_pv_per_kw + battery_kwh d * battery_per_kwh
     + generator_kw d * generator_per_kw + inverter_kw d * inverter_per_kw"

definition capital_cost :: "microgrid_design \<Rightarrow> rat" where
  "capital_cost d =
     equipment_cost d + equipment_cost d * bos_percent
     + equipment_cost d * installation_percent"

definition estimate_costs :: "microgrid_design \<Rightarrow> py_error + cost_estimate" where
  "estimate_costs d =
     (let total_capacity = solar_pv_kw d + generator_kw d
      in bind_err
           (if 0 < total_capacity then py_div (capital_cost d) total_capacity else Inr 0)
           (\<lambda>per_kw.
              Inr \<lparr>solar_pv_cost = py_round (solar_pv_kw d * solar_pv_per_kw) 2,
                    battery_cost = py_round (battery_kwh d * battery_per_kwh) 2,
                    generator_cost = py_round (generator_kw d * generator_per_kw) 2,
                    inverter_cost = py_round (inverter_kw d * inverter_per_kw) 2,
                    bos_cost = py_round (equipment_cost d * bos_percent) 2,
                    installation_cost = py_round (equipment_cost d * installation_percent) 2,
                    total_capital_cost = py_round (capital_cost d) 2,
                    annual_om_cost = py_round (capital_cost d * om_percent) 2,
                    cost_per_kw = py_round per_kw 2\<rparr>))"

section \<open>Financial Analyzer\<close>

text \<open>The tables \<^verbatim>\<open>default_params\<close>, \<^verbatim>\<open>tou_rates\<close> and \<^verbatim>\<open>la_incentives\<close>.\<close>

definition federal_itc_rate :: rat where "federal_itc_rate = 0.30"
definition discount_rate :: rat where "discount_rate = 0.06"
definition electricity_rate :: rat where "electricity_rate = 0.0945"
definition electricity_escalation :: rat where "electricity_escalation = 0.02"
definition project_lifetime :: nat where "project_lifetime = 25"

definition summer_on_peak :: rat where "summer_on_peak = 0.02554"
definition summer_off_peak :: rat where "summer_off_peak = 0.00607"
definition winter_on_peak :: rat where "winter_on_peak = 0.00746"
definition winter_off_peak :: rat where "winter_off_peak = 0.00607"
definition summer_demand :: rat where "summer_demand = 16.13"
definition winter_demand :: rat where "winter_demand = 14.50"
definition export_credit :: rat where "export_credit = 0.0259"
definition peak_days_per_month :: rat where "peak_days_per_month = 22"

definition interconnection_fee_commercial :: rat where "interconnection_fee_commercial = 75"
definition permit_fee_min :: rat where "permit_fee_min = 50"
definition permit_fee_max :: rat where "permit_fee_max = 500"

definition calculate_arbitrage_savings :: "microgrid_design \<Rightarrow> rat" where
  "calculate_arbitrage_savings d =
     (if battery_kwh d \<le> 0 then 0
      else let summer_spread = summer_on_peak - summer_off_peak;
               battery_efficiency = 0.85;
               summer_cycles = peak_days_per_month * 6;
               summer_arbitrage = battery_kwh d * summer_spread * battery_efficiency * summer_cycles;
               winter_spread = winter_on_peak - winter_off_peak;
               winter_cycles = peak_days_per_month * 6;
               winter_arbitrage = battery_kwh d * winter_spread * battery_efficiency * winter_cycles
           in summer_arbitrage + winter_arbitrage)"

definition calculate_demand_charge_savings :: "microgrid_design \<Rightarrow> rat" where
  "calculate_demand_charge_savings d =
     (if battery_kw d \<le> 0 then 0
      else let peak_reduction_kw = battery_kw d * 0.8;
               summer_savings = peak_reduction_kw * summer_demand * 6;
               winter_savings = peak_reduction_kw * winter_demand * 6
           in summer_savings + winter_savings)"

text \<open>The local variables of \<^verbatim>\<open>analyze_financials\<close>, one definition each.\<close>

definition net_cost :: "cost_estimate \<Rightarrow> rat" where
  "net_cost c =
     (let eligible_cost = solar_pv_cost c + battery_cost c;
          itc = eligible_cost * federal_itc_rate;
          interconnection_cost = interconnection_fee_commercial;
          permit_cost = (permit_fee_min + permit_fee_max) / 2;
          incentives = itc
      in total_capital_cost c - incentives + interconnection_cost + permit_cost)"

definition solar_production_kwh :: "microgrid_design \<Rightarrow> rat" where
  "solar_production_kwh d = solar_pv_kw d * 8760 * 0.269"

definition total_annual_savings :: "microgrid_design \<Rightarrow> rat" where
  "total_annual_savings d =
     (let self_consumption_rate = 0.80;
          self_consumption_savings =
            solar_production_kwh d * self_consumption_rate * electricity_rate;
          export_kwh = solar_production_kwh d * (1 - self_consumption_rate);
          export_savings = export_kwh * export_credit;
          arbitrage_savings = calculate_arbitrage_savings d;
          demand_savings = calculate_demand_charge_savings d
      in self_consumption_savings + export_savings + arbitrage_savings + demand_savings)"

definition net_annual_savings :: "microgrid_design \<Rightarrow> cost_estimate \<Rightarrow> rat" where
  "net_annual_savings d c = total_annual_savings d - annual_om_cost c"

text \<open>The two \<^verbatim>\<open>for year in range(1, lifetime + 1)\<close> loops, as folds over the years.\<close>

definition npv_costs :: "cost_estimate \<Rightarrow> rat" where
  "npv_costs c =
     fold (\<lambda>year acc. acc + annual_om_cost c / (1 + discount_rate) ^ year)
       [1 ..< project_lifetime + 1] (net_cost c)"

definition npv_benefits :: "microgrid_design \<Rightarrow> cost_estimate \<Rightarrow> rat" where
  "npv_benefits d c =
     fold (\<lambda>year acc.
             acc + net_annual_savings d c * (1 + electricity_escalation) ^ year
                   / (1 + discount_rate) ^ year)
       [1 ..< project_lifetime + 1] (- net_cost c)"

definition analyze_financials ::
  "facility_input \<Rightarrow> microgrid_design \<Rightarrow> cost_estimate \<Rightarrow> py_error + financial_analysis" where
  "analyze_financials fac d c =
     (let itc = (solar_pv_cost c + battery_cost c) * federal_itc_rate;
          incentives = itc;
          total_energy = solar_production_kwh d * of_nat project_lifetime
      in bind_err
           (if 0 < net_annual_savings d c then py_div (net_cost c) (net_annual_savings d c)
            else Inr 999)
           (\<lambda>simple_payback.
              bind_err
                (if 0 < total_energy then py_div (npv_costs c) total_energy else Inr 0)
                (\<lambda>levelized.
                   bind_err
                     (if 0 < net_cost c then py_div (net_annual_savings d c) (net_cost c)
                      else Inr 0)
                     (\<lambda>rate.
                        Inr \<lparr>lcoe = py_round levelized 4,
                              simple_payback_years = py_round simple_payback 1,
                              npv = py_round (npv_benefits d c) 2,
                              irr = py_round (rate * 100) 2,
                              annual_savings = py_round (total_annual_savings d) 2,
                              federal_itc = py_round itc 2,
                              total_incentives = py_round incentives 2,
                              net_cost_after_incentives = py_round (net_cost c) 2\<rparr>))))"

section \<open>Reliability Analyzer\<close>

definition saidi_with_med :: rat where
  "saidi_with_med = 652.5"

definition interruption_costs :: "(string \<times> rat) list" where
  "interruption_costs =
     [(''commercial'', 25.0), (''industrial'', 15.0), (''residential'', 5.0),
      (''hospital'', 100.0)]"

text \<open>
  \<^verbatim>\<open>str.lower\<close> on the letters A to Z. Every key of the table is made of the letters
  a to z only, and no other character is mapped to one of the letters that occur in them,
  so the lookup sees the same keys.
\<close>

definition lower_char :: "char \<Rightarrow> char" where
  "lower_char ch =
     (let n = (of_char ch :: nat)
      in if 65 \<le> n \<and> n \<le> 90 then char_of (n + 32) else ch)"

definition lower :: "string \<Rightarrow> string" where
  "lower s = map lower_char s"

definition cost_per_kwh :: "facility_input \<Rightarrow> rat" where
  "cost_per_kwh fac =
     (case map_of interruption_costs (lower (facility_type fac)) of
        Some r \<Rightarrow> r
      | None \<Rightarrow> 25.0)"

definition expected_outage_hours :: rat where
  "expected_outage_hours = saidi_with_med / 60"

definition assess_reliability ::
  "facility_input \<Rightarrow> microgrid_design \<Rightarrow> load_analysis \<Rightarrow> py_error + reliability_assessment" where
  "assess_reliability fac d la =
     bind_err
       (if 0 < backup_load_kw la then py_div (battery_kwh d) (backup_load_kw la) else Inr 0)
       (\<lambda>battery_hours.
          let generator_hours = (if 0 < generator_kw d then 72 else 0);
              total_backup_hours = battery_hours + generator_hours;
              critical_coverage = critical_load_coverage d * 100;
              avoided_energy = critical_load_kw la * expected_outage_hours;
              avoided = avoided_energy * cost_per_kwh fac * (critical_coverage / 100);
              reliability_improvement =
                (if expected_outage_hours \<le> total_backup_hours then 95.0
                 else (total_backup_hours / expected_outage_hours) * 100)
          in Inr \<lparr>ra_backup_duration_hours = py_round total_backup_hours 1,
                  critical_load_coverage_percent = py_round critical_coverage 1,
                  expected_outage_hours_per_year = py_round expected_outage_hours 1,
                  avoided_outage_cost = py_round avoided 2,
                  reliability_improvement_percent =
                    py_round (min reliability_improvement 99) 1\<rparr>)"

section \<open>Recommendations and the request handler\<close>

definition generate_recommendations ::
  "facility_input \<Rightarrow> microgrid_design \<Rightarrow> cost_estimate \<Rightarrow> financial_analysis \<Rightarrow>
   reliability_assessment \<Rightarrow> py_error + recommendation list" where
  "generate_recommendations fac d c fin rel =
     (let solar_recs =
            (if 0 < solar_pv_kw d then [SolarRec (solar_pv_kw d) (renewable_fraction d * 100)]
             else [])
      in bind_err
           (if 0 < battery_kwh d
            then bind_err (py_div (battery_kwh d) (battery_kw d))
                   (\<lambda>hours. Inr [BatteryRec (battery_kwh d) hours])
            else Inr [])
           (\<lambda>battery_recs.
              Inr (solar_recs @ battery_recs
                   @ (if 0 < generator_kw d then [GeneratorRec (generator_kw d)] else [])
                   @ (if simple_payback_years fin < 10
                      then [PaybackRec (simple_payback_years fin) (federal_itc fin)] else [])
                   @ (if 0 < npv fin then [NpvRec (npv fin)] else [])
                   @ (if 90 < reliability_improvement_percent rel
                      then [ReliabilityRec (reliability_improvement_percent rel)] else [])
                   @ (if 10000 < avoided_outage_cost rel
                      then [OutageCostRec (avoided_outage_cost rel)] else [])
                   @ [GridFormingRec])))"

text \<open>
  The handler of \<^verbatim>\<open>POST /analyze\<close>. An exception of any stage ends the request: the
  handler turns it into an HTTP 500, which is the \<open>Inl\<close> result here.
\<close>

definition analyze_microgrid :: "facility_input \<Rightarrow> py_error + full_analysis_result" where
  "analyze_microgrid fac =
     bind_err (analyze_load fac) (\<lambda>la.
     bind_err (size_system fac la) (\<lambda>d.
     bind_err (estimate_costs d) (\<lambda>c.
     bind_err (analyze_financials fac d c) (\<lambda>fin.
     bind_err (assess_reliability fac d la) (\<lambda>rel.
     bind_err (generate_recommendations fac d c fin rel) (\<lambda>recs.
       Inr \<lparr>facility = la, design = d, costs = c, financial = fin,
             reliability = rel, recommendations = recs\<rparr>))))))"

section \<open>The pipeline of the specification, with unrounded load values\<close>

text \<open>
  The specification asks for a Load Analyzer whose values reach the System Sizer and the
  Reliability Analyzer at full precision and are rounded only in the result shown to the
  caller. \<open>analyze_load_unrounded\<close> and \<open>reference_pipeline\<close> follow that wording; they
  are not part of the program.
\<close>

definition analyze_load_unrounded :: "facility_input \<Rightarrow> py_error + load_analysis" where
  "analyze_load_unrounded fac =
     (let critical = peak_demand_kw fac * (critical_load_percent fac / 100);
          essential = peak_demand_kw fac * (essential_load_percent fac / 100)
      in bind_err (py_div (annual_consumption_kwh fac) (peak_demand_kw fac * 8760))
           (\<lambda>lf.
              Inr \<lparr>la_peak_demand_kw = peak_demand_kw fac,
                    average_demand_kw = annual_consumption_kwh fac / 8760,
                    critical_load_kw = critical,
                    essential_load_kw = essential,
                    non_critical_load_kw = peak_demand_kw fac - critical - essential,
                    backup_load_kw = critical + essential,
                    load_factor = lf,
                    la_annual_consumption_kwh = annual_consumption_kwh fac\<rparr>))"

definition round_load_analysis :: "load_analysis \<Rightarrow> load_analysis" where
  "round_load_analysis la =
     \<lparr>la_peak_demand_kw = la_peak_demand_kw la,
      average_demand_kw = py_round (average_demand_kw la) 2,
      critical_load_kw = py_round (critical_load_kw la) 2,
      essential_load_kw = py_round (essential_load_kw la) 2,
      non_critical_load_kw = py_round (non_critical_load_kw la) 2,
      backup_load_kw = py_round (backup_load_kw la) 2,
      load_factor = py_round (load_factor la) 3,
      la_annual_consumption_kwh = la_annual_consumption_kwh la\<rparr>"

definition reference_pipeline :: "facility_input \<Rightarrow> py_error + full_analysis_result" where
  "reference_pipeline fac =
     bind_err (analyze_load_unrounded fac) (\<lambda>la.
     bind_err (size_system fac la) (\<lambda>d.
     bind_err (estimate_costs d) (\<lambda>c.
     bind_err (analyze_financials fac d c) (\<lambda>fin.
     bind_err (assess_reliability fac d la) (\<lambda>rel.
     bind_err (generate_recommendations fac d c fin rel) (\<lambda>recs.
       Inr \<lparr>facility = round_load_analysis la, design = d, costs = c, financial = fin,
             reliability = rel, recommendations = recs\<rparr>))))))"

section \<open>The cost chain on doubles that can overflow\<close>

text \<open>
  The definitions above compute with unbounded rationals. A Python float is a binary64
  double: a result whose magnitude reaches \<open>2 ^ 1024 - 2 ^ 970\<close> rounds to infinity, and
  infinities combine to not-a-number. For requests whose sizes leave the range of a
  double, the stages up to the net cost are given again on values that can be infinite or
  not-a-number. A finite result is kept exact here (its rounding to 53 bits is left out),
  and so is a tiny one (no underflow).
\<close>

datatype pyfloat = Fin rat | PosInf | NegInf | NaN

definition to_float :: "rat \<Rightarrow> pyfloat" where
  "to_float x =
     (if 2 ^ 1024 - 2 ^ 970 \<le> x then PosInf
      else if x \<le> - (2 ^ 1024 - 2 ^ 970) then NegInf
      else Fin x)"

fun f_neg :: "pyfloat \<Rightarrow> pyfloat" where
  "f_neg (Fin a) = Fin (- a)"
| "f_neg PosInf = NegInf"
| "f_neg NegInf = PosInf"
| "f_neg NaN = NaN"

fun f_add :: "pyfloat \<Rightarrow> pyfloat \<Rightarrow> pyfloat" where
  "f_add NaN y = NaN"
| "f_add x NaN = NaN"
| "f_add (Fin a) (Fin b) = to_float (a + b)"
| "f_add PosInf NegInf = NaN"
| "f_add NegInf PosInf = NaN"
| "f_add PosInf y = PosInf"
| "f_add NegInf y = NegInf"
| "f_add (Fin a) y = y"

definition f_sub :: "pyfloat \<Rightarrow> pyfloat \<Rightarrow> pyfloat" where
  "f_sub x y = f_add x (f_neg y)"

text \<open>The sign of a value that is not NaN: \<open>1\<close>, \<open>0\<close> or \<open>-1\<close>.\<close>

fun f_sign :: "pyfloat \<Rightarrow> int" where
  "f_sign (Fin a) = (if 0 < a then 1 else if a < 0 then - 1 else 0)"
| "f_sign PosInf = 1"
| "f_sign NegInf = - 1"
| "f_sign NaN = 0"

fun f_mul :: "pyfloat \<Rightarrow> pyfloat \<Rightarrow> pyfloat" where
  "f_mul NaN y = NaN"
| "f_mul x NaN = NaN"
| "f_mul (Fin a) (Fin b) = to_float (a * b)"
| "f_mul x y =
     (if f_sign x * f_sign y = 0 then NaN
      else if 0 < f_sign x * f_sign y then PosInf else NegInf)"

text \<open>
  The quotient by a divisor that is not zero. \<open>f_div\<close> is Python's \<^verbatim>\<open>/\<close>, which raises
  on a zero divisor before looking at the dividend.
\<close>

fun f_quot :: "pyfloat \<Rightarrow> pyfloat \<Rightarrow> pyfloat" where
  "f_quot NaN y = NaN"
| "f_quot x NaN = NaN"
| "f_quot (Fin a) (Fin b) = to_float (a / b)"
| "f_quot (Fin a) y = Fin 0"
| "f_quot x (Fin b) = (if 0 < f_sign x * f_sign (Fin b) then PosInf else NegInf)"
| "f_quot x y = NaN"

definition f_div :: "pyfloat \<Rightarrow> pyfloat \<Rightarrow> py_error + pyfloat" where
  "f_div x y = (if y = Fin 0 then Inl ZeroDivisionError else Inr (f_quot x y))"

text \<open>Comparison: false as soon as one side is NaN.\<close>

fun f_less :: "pyfloat \<Rightarrow> pyfloat \<Rightarrow> bool" where
  "f_less NaN y = False"
| "f_less x NaN = False"
| "f_less (Fin a) (Fin b) = (a < b)"
| "f_less x PosInf = (x \<noteq> PosInf)"
| "f_less NegInf y = (y \<noteq> NegInf)"
| "f_less x y = False"

text \<open>
  \<^verbatim>\<open>min(a, b)\<close> and \<^verbatim>\<open>max(a, b, c)\<close> keep the first argument unless a later one compares
  smaller (larger); \<^verbatim>\<open>round(x, n)\<close> returns an infinity or a NaN unchanged.
\<close>

definition f_min :: "pyfloat \<Rightarrow> pyfloat \<Rightarrow> pyfloat" where
  "f_min x y = (if f_less y x then y else x)"

definition f_max3 :: "pyfloat \<Rightarrow> pyfloat \<Rightarrow> pyfloat \<Rightarrow> pyfloat" where
  "f_max3 x y z =
     (let m = (if f_less x y then y else x)
      in if f_less m z then z else m)"

fun f_round :: "pyfloat \<Rightarrow> nat \<Rightarrow> pyfloat" where
  "f_round (Fin a) n = to_float (py_round a n)"
| "f_round x n = x"

record load_analysis_f =
  peak_demand_kw_f :: pyfloat
  average_demand_kw_f :: pyfloat
  critical_load_kw_f :: pyfloat
  essential_load_kw_f :: pyfloat
  non_critical_load_kw_f :: pyfloat
  backup_load_kw_f :: pyfloat
  load_factor_f :: pyfloat
  annual_consumption_kwh_f :: pyfloat

record microgrid_design_f =
  solar_pv_kw_f :: pyfloat
  battery_kw_f :: pyfloat
  battery_kwh_f :: pyfloat
  generator_kw_f :: pyfloat
  inverter_kw_f :: pyfloat
  total_generation_kw_f :: pyfloat
  renewable_fraction_f :: pyfloat
  critical_load_coverage_f :: pyfloat

record cost_estimate_f =
  solar_pv_cost_f :: pyfloat
  battery_cost_f :: pyfloat
  generator_cost_f :: pyfloat
  inverter_cost_f :: pyfloat
  bos_cost_f :: pyfloat
  installation_cost_f :: pyfloat
  total_capital_cost_f :: pyfloat
  annual_om_cost_f :: pyfloat
  cost_per_kw_f :: pyfloat

definition analyze_load_f :: "facility_input \<Rightarrow> py_error + load_analysis_f" where
  "analyze_load_f fac =
     (let peak = to_float (peak_demand_kw fac);
          annual = to_float (annual_consumption_kwh fac);
          critical = f_mul peak (f_quot (to_float (critical_load_percent fac)) (Fin 100));
          essential = f_mul peak (f_quot (to_float (essential_load_percent fac)) (Fin 100));
          non_critical = f_sub (f_sub peak critical) essential;
          hours_per_year = Fin 8760
      in bind_err (f_div annual (f_mul peak hours_per_year))
           (\<lambda>lf.
              let avg_demand_kw = f_quot annual hours_per_year;
                  backup = f_add critical essential
              in Inr \<lparr>peak_demand_kw_f = peak,
                      average_demand_kw_f = f_round avg_demand_kw 2,
                      critical_load_kw_f = f_round critical 2,
                      essential_load_kw_f = f_round essential 2,
                      non_critical_load_kw_f = f_round non_critical 2,
                      backup_load_kw_f = f_round backup 2,
                      load_factor_f = f_round lf 3,
                      annual_consumption_kwh_f = annual\<rparr>))"

definition size_system_f ::
  "facility_input \<Rightarrow> load_analysis_f \<Rightarrow> py_error + microgrid_design_f" where
  "size_system_f fac la =
     (let backup = backup_load_kw_f la;
          critical = critical_load_kw_f la;
          solar =
            (if include_solar fac
             then f_min (f_round (f_quot (f_mul (average_demand_kw_f la) (Fin 1.3))
                                    (Fin solar_capacity_factor)) 1)
                        (f_mul (to_float (peak_demand_kw fac)) (Fin 1.5))
             else Fin 0);
          battery_hours = f_min (Fin 4) (to_float (backup_duration_hours fac));
          b_kwh =
            (if include_battery fac
             then f_round (f_quot (f_mul backup battery_hours)
                             (Fin battery_round_trip_efficiency)) 1
             else Fin 0);
          b_kw = (if include_battery fac then f_round (f_mul backup (Fin 1.1)) 1 else Fin 0);
          generator =
            (if include_generator fac then f_round (f_mul backup (Fin 1.2)) 1 else Fin 0);
          inverter = f_round (f_mul (f_max3 solar b_kw backup) (Fin 1.1)) 1;
          total_generation = f_add solar generator
      in bind_err
           (if f_less (Fin 0) total_generation
            then bind_err (f_div solar total_generation) (\<lambda>q. Inr (f_round q 3))
            else Inr (Fin 0))
           (\<lambda>renewable.
              bind_err
                (if f_less (Fin 0) critical
                 then bind_err (f_div (f_add b_kw generator) critical)
                        (\<lambda>q. Inr (f_min (Fin 1) q))
                 else Inr (Fin 1))
                (\<lambda>coverage.
                   Inr \<lparr>solar_pv_kw_f = solar,
                         battery_kw_f = b_kw,
                         battery_kwh_f = b_kwh,
                         generator_kw_f = generator,
                         inverter_kw_f = inverter,
                         total_generation_kw_f = f_round total_generation 1,
                         renewable_fraction_f = f_round renewable 3,
                         critical_load_coverage_f = f_round coverage 3\<rparr>)))"

definition estimate_costs_f :: "microgrid_design_f \<Rightarrow> py_error + cost_estimate_f" where
  "estimate_costs_f d =
     (let solar_cost = f_mul (solar_pv_kw_f d) (Fin solar_pv_per_kw);
          batt_cost = f_mul (battery_kwh_f d) (Fin battery_per_kwh);
          gen_cost = f_mul (generator_kw_f d) (Fin generator_per_kw);
          inv_cost = f_mul (inverter_kw_f d) (Fin inverter_per_kw);
          equipment = f_add (f_add (f_add solar_cost batt_cost) gen_cost) inv_cost;
          bos = f_mul equipment (Fin bos_percent);
          installation = f_mul equipment (Fin installation_percent);
          total = f_add (f_add equipment bos) installation;
          annual_om = f_mul total (Fin om_percent);
          total_capacity = f_add (solar_pv_kw_f d) (generator_kw_f d)
      in bind_err
           (if f_less (Fin 0) total_capacity then f_div total total_capacity else Inr (Fin 0))
           (\<lambda>per_kw.
              Inr \<lparr>solar_pv_cost_f = f_round solar_cost 2,
                    battery_cost_f = f_round batt_cost 2,
                    generator_cost_f = f_round gen_cost 2,
                    inverter_cost_f = f_round inv_cost 2,
                    bos_cost_f = f_round bos 2,
                    installation_cost_f = f_round installation 2,
                    total_capital_cost_f = f_round total 2,
                    annual_om_cost_f = f_round annual_om 2,
                    cost_per_kw_f = f_round per_kw 2\<rparr>))"

text \<open>
  The net cost of \<^verbatim>\<open>analyze_financials\<close>; the approximate IRR divides by it under the guard
  \<^verbatim>\<open>net_cost > 0\<close> and is 0 otherwise.
\<close>

definition net_cost_f :: "cost_estimate_f \<Rightarrow> pyfloat" where
  "net_cost_f c =
     (let eligible_cost = f_add (solar_pv_cost_f c) (battery_cost_f c);
          itc = f_mul eligible_cost (Fin federal_itc_rate);
          interconnection_cost = Fin interconnection_fee_commercial;
          permit_cost = f_quot (f_add (Fin permit_fee_min) (Fin permit_fee_max)) (Fin 2);
          incentives = itc
      in f_add (f_add (f_sub (total_capital_cost_f c) incentives) interconnection_cost)
           permit_cost)"

section \<open>Example requests\<close>

text \<open>
  Requests used to run the program on concrete inputs: a facility type, peak demand,
  annual consumption, critical and essential percentages, backup duration, and the three
  inclusion flags. The name and the location play no part in the calculation.
\<close>

definition request ::
  "string \<Rightarrow> rat \<Rightarrow> rat \<Rightarrow> rat \<Rightarrow> rat \<Rightarrow> rat \<Rightarrow> bool \<Rightarrow> bool \<Rightarrow> bool \<Rightarrow> facility_input" where
  "request ftype peak annual crit ess hours solar battery generator =
     \<lparr>facility_name = ''site'', facility_type = ftype, location = ''baton_rouge'',
      peak_demand_kw = peak, annual_consumption_kwh = annual,
      critical_load_percent = crit, essential_load_percent = ess,
      backup_duration_hours = hours, grid_connected = True,
      include_solar = solar, include_battery = battery, include_generator = generator\<rparr>"

section \<open>Properties of rounding\<close>

lemma round_half_even_upper: "of_int (round_half_even x) \<le> x + 1 / 2"
  unfolding round_half_even_def Let_def by (auto; linarith)

lemma round_half_even_lower: "x - 1 / 2 \<le> of_int (round_half_even x)"
  unfolding round_half_even_def Let_def by (auto; linarith)

lemma round_half_even_of_int: "round_half_even (of_int k) = k"
  unfolding round_half_even_def Let_def by simp

lemma round_half_even_le: 
  assumes "x \<le> of_int k" shows "round_half_even x \<le> k"
proof -
  have "(of_int (round_half_even x) :: rat) \<le> x + 1 / 2" by (rule round_half_even_upper)
  with assms have "(of_int (round_half_even x) :: rat) < of_int k + 1" by linarith
  then have "(of_int (round_half_even x) :: rat) < of_int (k + 1)" by simp
  then have "round_half_even x < k + 1" by (simp only: of_int_less_iff)
  then show ?thesis by simp
qed

lemma round_half_even_ge: 
  assumes "of_int k \<le> x" shows "k \<le> round_half_even x"
proof -
  have "x - 1 / 2 \<le> (of_int (round_half_even x) :: rat)" by (rule round_half_even_lower)
  with assms have "(of_int k :: rat) - 1 < of_int (round_half_even x)" by linarith
  then have "(of_int (k - 1) :: rat) < of_int (round_half_even x)" by simp
  then have "k - 1 < round_half_even x" by (simp only: of_int_less_iff)
  then show ?thesis by simp
qed

lemma floor_numeral_divide: "\<lfloor>(numeral a / numeral b :: rat)\<rfloor> = numeral a div numeral b"
  using floor_divide_of_int_eq [of "numeral a" "numeral b", where ?'a = rat] by simp

lemma py_round_zero: "py_round 0 n = 0"
  unfolding py_round_def using round_half_even_of_int [of 0] by simp

lemma py_round_nonneg: assumes "0 \<le> x" shows "0 \<le> py_round x n"
proof -
  have "(of_int 0 :: rat) \<le> x * 10 ^ n" using assms by simp
  then have "0 \<le> round_half_even (x * 10 ^ n)" by (rule round_half_even_ge)
  then show ?thesis unfolding py_round_def by simp
qed

lemma py_round_le_int: assumes "x \<le> of_int k" shows "py_round x n \<le> of_int k"
proof -
  have "x * 10 ^ n \<le> of_int (k * 10 ^ n)" using assms by simp
  then have "round_half_even (x * 10 ^ n) \<le> k * 10 ^ n" by (rule round_half_even_le)
  then have "(of_int (round_half_even (x * 10 ^ n)) :: rat) \<le> of_int (k * 10 ^ n)"
    by (simp only: of_int_le_iff)
  then show ?thesis unfolding py_round_def by (simp add: field_simps)
qed

lemma py_round_ge_int: assumes "of_int k \<le> x" shows "of_int k \<le> py_round x n"
proof -
  have "of_int (k * 10 ^ n) \<le> x * 10 ^ n" using assms by simp
  then have "k * 10 ^ n \<le> round_half_even (x * 10 ^ n)" by (rule round_half_even_ge)
  then have "(of_int (k * 10 ^ n) :: rat) \<le> of_int (round_half_even (x * 10 ^ n))"
    by (simp only: of_int_le_iff)
  then show ?thesis unfolding py_round_def by (simp add: field_simps)
qed


lemma py_round_of_int: "py_round (of_int k) n = of_int k"
proof -
  have "(of_int k :: rat) * 10 ^ n = of_int (k * 10 ^ n)" by simp
  then have "round_half_even (of_int k * 10 ^ n) = k * 10 ^ n"
    by (simp only: round_half_even_of_int)
  then show ?thesis unfolding py_round_def by simp
qed

lemma py_round_one: "py_round 1 n = 1"
  using py_round_of_int [of 1 n] by simp

lemma py_round_le_one: "x \<le> 1 \<Longrightarrow> py_round x n \<le> 1"
  using py_round_le_int [of x 1 n] by simp

section \<open>The stages in closed form\<close>

text \<open>
  Every guard of the five calculation stages protects the division it stands before, so
  each stage returns a value; the equations below give that value with the plain division.
\<close>

lemma analyze_load_eq:
  assumes "peak_demand_kw fac \<noteq> 0"
  shows "analyze_load fac =
     Inr \<lparr>la_peak_demand_kw = peak_demand_kw fac,
          average_demand_kw = py_round (annual_consumption_kwh fac / 8760) 2,
          critical_load_kw = py_round (peak_demand_kw fac * (critical_load_percent fac / 100)) 2,
          essential_load_kw = py_round (peak_demand_kw fac * (essential_load_percent fac / 100)) 2,
          non_critical_load_kw =
            py_round (peak_demand_kw fac - peak_demand_kw fac * (critical_load_percent fac / 100)
                      - peak_demand_kw fac * (essential_load_percent fac / 100)) 2,
          backup_load_kw =
            py_round (peak_demand_kw fac * (critical_load_percent fac / 100)
                      + peak_demand_kw fac * (essential_load_percent fac / 100)) 2,
          load_factor =
            py_round (annual_consumption_kwh fac / (peak_demand_kw fac * 8760)) 3,
          la_annual_consumption_kwh = annual_consumption_kwh fac\<rparr>"
  using assms by (simp add: analyze_load_def py_div_def Let_def)

lemma size_system_eq:
  "size_system fac la =
     (let backup = backup_load_kw la;
          critical = critical_load_kw la;
          solar =
            (if include_solar fac
             then min (py_round (average_demand_kw la * 1.3 / solar_capacity_factor) 1)
                      (peak_demand_kw fac * 1.5)
             else 0);
          b_kw = (if include_battery fac then py_round (backup * 1.1) 1 else 0);
          generator = (if include_generator fac then py_round (backup * 1.2) 1 else 0)
      in Inr \<lparr>solar_pv_kw = solar,
              battery_kw = b_kw,
              battery_kwh =
                (if include_battery fac
                 then py_round (backup * min 4 (backup_duration_hours fac)
                                / battery_round_trip_efficiency) 1
                 else 0),
              generator_kw = generator,
              inverter_kw = py_round (max (max solar b_kw) backup * 1.1) 1,
              total_generation_kw = py_round (solar + generator) 1,
              renewable_fraction =
                py_round (if 0 < solar + generator
                          then py_round (solar / (solar + generator)) 3 else 0) 3,
              critical_load_coverage =
                py_round (if 0 < critical then min 1 ((b_kw + generator) / critical) else 1) 3\<rparr>)"
  by (simp add: size_system_def py_div_def Let_def)

lemma estimate_costs_eq:
  "estimate_costs d =
     Inr \<lparr>solar_pv_cost = py_round (solar_pv_kw d * solar_pv_per_kw) 2,
          battery_cost = py_round (battery_kwh d * battery_per_kwh) 2,
          generator_cost = py_round (generator_kw d * generator_per_kw) 2,
          inverter_cost = py_round (inverter_kw d * inverter_per_kw) 2,
          bos_cost = py_round (equipment_cost d * bos_percent) 2,
          installation_cost = py_round (equipment_cost d * installation_percent) 2,
          total_capital_cost = py_round (capital_cost d) 2,
          annual_om_cost = py_round (capital_cost d * om_percent) 2,
          cost_per_kw =
            py_round (if 0 < solar_pv_kw d + generator_kw d
                      then capital_cost d / (solar_pv_kw d + generator_kw d) else 0) 2\<rparr>"
  by (simp add: estimate_costs_def py_div_def Let_def)

lemma analyze_financials_eq:
  "analyze_financials fac d c =
     Inr \<lparr>lcoe =
            py_round (if 0 < solar_production_kwh d * of_nat project_lifetime
                      then npv_costs c / (solar_production_kwh d * of_nat project_lifetime)
                      else 0) 4,
          simple_payback_years =
            py_round (if 0 < net_annual_savings d c
                      then net_cost c / net_annual_savings d c else 999) 1,
          npv = py_round (npv_benefits d c) 2,
          irr = py_round ((if 0 < net_cost c then net_annual_savings d c / net_cost c else 0)
                          * 100) 2,
          annual_savings = py_round (total_annual_savings d) 2,
          federal_itc = py_round ((solar_pv_cost c + battery_cost c) * federal_itc_rate) 2,
          total_incentives = py_round ((solar_pv_cost c + battery_cost c) * federal_itc_rate) 2,
          net_cost_after_incentives = py_round (net_cost c) 2\<rparr>"
  by (simp add: analyze_financials_def py_div_def Let_def)

lemma assess_reliability_eq:
  "assess_reliability fac d la =
     (let total_backup_hours =
            (if 0 < backup_load_kw la then battery_kwh d / backup_load_kw la else 0)
            + (if 0 < generator_kw d then 72 else 0)
      in Inr \<lparr>ra_backup_duration_hours = py_round total_backup_hours 1,
              critical_load_coverage_percent = py_round (critical_load_coverage d * 100) 1,
              expected_outage_hours_per_year = py_round expected_outage_hours 1,
              avoided_outage_cost =
                py_round (critical_load_kw la * expected_outage_hours * cost_per_kwh fac
                          * (critical_load_coverage d * 100 / 100)) 2,
              reliability_improvement_percent =
                py_round (min (if expected_outage_hours \<le> total_backup_hours then 95.0
                               else (total_backup_hours / expected_outage_hours) * 100) 99) 1\<rparr>)"
  by (simp add: assess_reliability_def py_div_def Let_def mult.assoc)

section \<open>Fields of the stage results; sizes are never negative\<close>

lemma size_system_sel:
  assumes "size_system fac la = Inr d"
  shows "solar_pv_kw d =
           (if include_solar fac
            then min (py_round (average_demand_kw la * 1.3 / solar_capacity_factor) 1)
                     (peak_demand_kw fac * 1.5)
            else 0)"
    and "battery_kw d = (if include_battery fac then py_round (backup_load_kw la * 1.1) 1 else 0)"
    and "battery_kwh d =
           (if include_battery fac
            then py_round (backup_load_kw la * min 4 (backup_duration_hours fac)
                           / battery_round_trip_efficiency) 1
            else 0)"
    and "generator_kw d =
           (if include_generator fac then py_round (backup_load_kw la * 1.2) 1 else 0)"
    and "inverter_kw d =
           py_round (max (max (solar_pv_kw d) (battery_kw d)) (backup_load_kw la) * 1.1) 1"
    and "total_generation_kw d = py_round (solar_pv_kw d + generator_kw d) 1"
    and "renewable_fraction d =
           py_round (if 0 < solar_pv_kw d + generator_kw d
                     then py_round (solar_pv_kw d / (solar_pv_kw d + generator_kw d)) 3
                     else 0) 3"
    and "critical_load_coverage d =
           py_round (if 0 < critical_load_kw la
                     then min 1 ((battery_kw d + generator_kw d) / critical_load_kw la)
                     else 1) 3"
proof -
  have d: "d = projr (size_system fac la)" using assms by simp
  show "solar_pv_kw d =
           (if include_solar fac
            then min (py_round (average_demand_kw la * 1.3 / solar_capacity_factor) 1)
                     (peak_demand_kw fac * 1.5)
            else 0)"
    unfolding d size_system_eq Let_def by simp
  show "battery_kw d = (if include_battery fac then py_round (backup_load_kw la * 1.1) 1 else 0)"
    unfolding d size_system_eq Let_def by simp
  show "battery_kwh d =
           (if include_battery fac
            then py_round (backup_load_kw la * min 4 (backup_duration_hours fac)
                           / battery_round_trip_efficiency) 1
            else 0)"
    unfolding d size_system_eq Let_def by simp
  show "generator_kw d =
           (if include_generator fac then py_round (backup_load_kw la * 1.2) 1 else 0)"
    unfolding d size_system_eq Let_def by simp
  show "inverter_kw d =
           py_round (max (max (solar_pv_kw d) (battery_kw d)) (backup_load_kw la) * 1.1) 1"
    unfolding d size_system_eq Let_def by simp
  show "total_generation_kw d = py_round (solar_pv_kw d + generator_kw d) 1"
    unfolding d size_system_eq Let_def by simp
  show "renewable_fraction d =
           py_round (if 0 < solar_pv_kw d + generator_kw d
                     then py_round (solar_pv_kw d / (solar_pv_kw d + generator_kw d)) 3
                     else 0) 3"
    unfolding d size_system_eq Let_def by simp
  show "critical_load_coverage d =
           py_round (if 0 < critical_load_kw la
                     then min 1 ((battery_kw d + generator_kw d) / critical_load_kw la)
                     else 1) 3"
    unfolding d size_system_eq Let_def by simp
qed

lemma design_nonneg:
  assumes "0 \<le> average_demand_kw la" and "0 \<le> critical_load_kw la"
    and "0 \<le> backup_load_kw la" and "0 < peak_demand_kw fac"
    and "0 < backup_duration_hours fac" and "size_system fac la = Inr d"
  shows "0 \<le> solar_pv_kw d" and "0 \<le> battery_kw d" and "0 \<le> battery_kwh d"
    and "0 \<le> generator_kw d" and "0 \<le> inverter_kw d" and "0 \<le> total_generation_kw d"
    and "0 \<le> renewable_fraction d" and "0 \<le> critical_load_coverage d"
proof -
  note sel = size_system_sel [OF assms(6)]
  have "0 \<le> py_round (average_demand_kw la * 1.3 / solar_capacity_factor) 1"
    using assms(1) by (intro py_round_nonneg) (simp add: solar_capacity_factor_def)
  then show s: "0 \<le> solar_pv_kw d"
    using assms(4) by (simp add: sel(1))
  show bk: "0 \<le> battery_kw d"
    using assms(3) by (simp add: sel(2) py_round_nonneg)
  show "0 \<le> battery_kwh d"
    using assms(3,5) by (simp add: sel(3) py_round_nonneg battery_round_trip_efficiency_def)
  show g: "0 \<le> generator_kw d"
    using assms(3) by (simp add: sel(4) py_round_nonneg)
  show "0 \<le> inverter_kw d"
    unfolding sel(5) using assms(3) by (intro py_round_nonneg) (simp add: max_def)
  show "0 \<le> total_generation_kw d"
    unfolding sel(6) using s g by (intro py_round_nonneg) simp
  have "0 \<le> py_round (solar_pv_kw d / (solar_pv_kw d + generator_kw d)) 3"
    using s g by (intro py_round_nonneg) simp
  then show "0 \<le> renewable_fraction d"
    unfolding sel(7) by (intro py_round_nonneg) simp
  have "0 \<le> (battery_kw d + generator_kw d) / critical_load_kw la"
    using bk g assms(2) by simp
  then show "0 \<le> critical_load_coverage d"
    unfolding sel(8) by (intro py_round_nonneg) simp
qed

lemma analyze_load_sel:
  assumes "peak_demand_kw fac \<noteq> 0" and "analyze_load fac = Inr la"
  shows "average_demand_kw la = py_round (annual_consumption_kwh fac / 8760) 2"
    and "critical_load_kw la =
           py_round (peak_demand_kw fac * (critical_load_percent fac / 100)) 2"
    and "essential_load_kw la =
           py_round (peak_demand_kw fac * (essential_load_percent fac / 100)) 2"
    and "non_critical_load_kw la =
           py_round (peak_demand_kw fac - peak_demand_kw fac * (critical_load_percent fac / 100)
                     - peak_demand_kw fac * (essential_load_percent fac / 100)) 2"
    and "backup_load_kw la =
           py_round (peak_demand_kw fac * (critical_load_percent fac / 100)
                     + peak_demand_kw fac * (essential_load_percent fac / 100)) 2"
proof -
  have la: "la = projr (analyze_load fac)" using assms(2) by simp
  show "average_demand_kw la = py_round (annual_consumption_kwh fac / 8760) 2"
    unfolding la analyze_load_eq [OF assms(1)] by simp
  show "critical_load_kw la =
           py_round (peak_demand_kw fac * (critical_load_percent fac / 100)) 2"
    unfolding la analyze_load_eq [OF assms(1)] by simp
  show "essential_load_kw la =
           py_round (peak_demand_kw fac * (essential_load_percent fac / 100)) 2"
    unfolding la analyze_load_eq [OF assms(1)] by simp
  show "non_critical_load_kw la =
           py_round (peak_demand_kw fac - peak_demand_kw fac * (critical_load_percent fac / 100)
                     - peak_demand_kw fac * (essential_load_percent fac / 100)) 2"
    unfolding la analyze_load_eq [OF assms(1)] by simp
  show "backup_load_kw la =
           py_round (peak_demand_kw fac * (critical_load_percent fac / 100)
                     + peak_demand_kw fac * (essential_load_percent fac / 100)) 2"
    unfolding la analyze_load_eq [OF assms(1)] by simp
qed

lemma valid_load_ok:
  assumes "valid_facility fac"
  shows "\<exists>la. analyze_load fac = Inr la"
proof -
  have "peak_demand_kw fac \<noteq> 0" using assms by (simp add: valid_facility_def)
  from analyze_load_eq [OF this] show ?thesis by blast
qed

lemma valid_load_nonneg:
  assumes "valid_facility fac" and "analyze_load fac = Inr la"
  shows "0 \<le> average_demand_kw la" and "0 \<le> critical_load_kw la"
    and "0 \<le> backup_load_kw la"
proof -
  have p: "peak_demand_kw fac \<noteq> 0" "0 \<le> peak_demand_kw fac"
    and a: "0 \<le> annual_consumption_kwh fac"
    and c: "0 \<le> critical_load_percent fac" and e: "0 \<le> essential_load_percent fac"
    using assms(1) by (simp_all add: valid_facility_def)
  note sel = analyze_load_sel [OF p(1) assms(2)]
  show "0 \<le> average_demand_kw la"
    unfolding sel(1) using a by (intro py_round_nonneg) simp
  show "0 \<le> critical_load_kw la"
    unfolding sel(2) using p(2) c by (intro py_round_nonneg) simp
  show "0 \<le> backup_load_kw la"
    unfolding sel(5) using p(2) c e by (intro py_round_nonneg) simp
qed

lemma size_system_ok: "\<exists>d. size_system fac la = Inr d"
  by (simp add: size_system_eq Let_def)

section \<open>The request handler in terms of its stages\<close>

lemma estimate_costs_ok: "\<exists>c. estimate_costs d = Inr c"
  by (simp add: estimate_costs_eq)

lemma analyze_financials_ok: "\<exists>fin. analyze_financials fac d c = Inr fin"
  by (simp add: analyze_financials_eq)

lemma assess_reliability_ok: "\<exists>rel. assess_reliability fac d la = Inr rel"
  by (simp add: assess_reliability_eq Let_def)

lemma estimate_costs_sel:
  assumes "estimate_costs d = Inr c"
  shows "solar_pv_cost c = py_round (solar_pv_kw d * solar_pv_per_kw) 2"
    and "battery_cost c = py_round (battery_kwh d * battery_per_kwh) 2"
    and "total_capital_cost c = py_round (capital_cost d) 2"
    and "annual_om_cost c = py_round (capital_cost d * om_percent) 2"
    and "cost_per_kw c =
           py_round (if 0 < solar_pv_kw d + generator_kw d
                     then capital_cost d / (solar_pv_kw d + generator_kw d) else 0) 2"
proof -
  have c: "c = projr (estimate_costs d)" using assms by simp
  show "solar_pv_cost c = py_round (solar_pv_kw d * solar_pv_per_kw) 2"
    unfolding c estimate_costs_eq by simp
  show "battery_cost c = py_round (battery_kwh d * battery_per_kwh) 2"
    unfolding c estimate_costs_eq by simp
  show "total_capital_cost c = py_round (capital_cost d) 2"
    unfolding c estimate_costs_eq by simp
  show "annual_om_cost c = py_round (capital_cost d * om_percent) 2"
    unfolding c estimate_costs_eq by simp
  show "cost_per_kw c =
           py_round (if 0 < solar_pv_kw d + generator_kw d
                     then capital_cost d / (solar_pv_kw d + generator_kw d) else 0) 2"
    unfolding c estimate_costs_eq by simp
qed

lemma generate_recommendations_raises:
  assumes "0 < battery_kwh d" and "battery_kw d = 0"
  shows "generate_recommendations fac d c fin rel = Inl ZeroDivisionError"
  using assms by (simp add: generate_recommendations_def py_div_def Let_def)

lemma generate_recommendations_ok:
  assumes "battery_kwh d \<le> 0 \<or> battery_kw d \<noteq> 0"
  shows "\<exists>recs. generate_recommendations fac d c fin rel = Inr recs"
  using assms by (auto simp add: generate_recommendations_def py_div_def Let_def)

lemma analyze_microgrid_eq:
  assumes "analyze_load fac = Inr la" and "size_system fac la = Inr d"
    and "estimate_costs d = Inr c" and "analyze_financials fac d c = Inr fin"
    and "assess_reliability fac d la = Inr rel"
  shows "analyze_microgrid fac =
           bind_err (generate_recommendations fac d c fin rel)
             (\<lambda>recs. Inr \<lparr>facility = la, design = d, costs = c, financial = fin,
                            reliability = rel, recommendations = recs\<rparr>)"
  using assms by (simp add: analyze_microgrid_def)

lemma analyze_microgrid_raises:
  assumes "analyze_load fac = Inr la" and "size_system fac la = Inr d"
    and "0 < battery_kwh d" and "battery_kw d = 0"
  shows "analyze_microgrid fac = Inl ZeroDivisionError"
proof -
  from estimate_costs_ok obtain c where c: "estimate_costs d = Inr c" ..
  from analyze_financials_ok obtain fin where f: "analyze_financials fac d c = Inr fin" ..
  from assess_reliability_ok obtain rel where r: "assess_reliability fac d la = Inr rel" ..
  show ?thesis
    unfolding analyze_microgrid_eq [OF assms(1,2) c f r]
    by (simp add: generate_recommendations_raises [OF assms(3,4)])
qed

lemma analyze_microgrid_ok:
  assumes "analyze_load fac = Inr la" and "size_system fac la = Inr d"
    and "estimate_costs d = Inr c"
    and "battery_kwh d \<le> 0 \<or> battery_kw d \<noteq> 0"
  shows "\<exists>r. analyze_microgrid fac = Inr r \<and> facility r = la \<and> design r = d \<and> costs r = c"
proof -
  from analyze_financials_ok obtain fin where f: "analyze_financials fac d c = Inr fin" ..
  from assess_reliability_ok obtain rel where r: "assess_reliability fac d la = Inr rel" ..
  from generate_recommendations_ok [OF assms(4)]
  obtain recs where g: "generate_recommendations fac d c fin rel = Inr recs" ..
  show ?thesis
    unfolding analyze_microgrid_eq [OF assms(1,2,3) f r] by (simp add: g)
qed

section \<open>Fields of the reliability assessment\<close>

lemma assess_reliability_sel:
  assumes "assess_reliability fac d la = Inr rel"
  shows "avoided_outage_cost rel =
           py_round (critical_load_kw la * expected_outage_hours * cost_per_kwh fac
                     * (critical_load_coverage d * 100 / 100)) 2"
    and "reliability_improvement_percent rel =
           py_round
             (min (if expected_outage_hours
                      \<le> (if 0 < backup_load_kw la then battery_kwh d / backup_load_kw la else 0)
                        + (if 0 < generator_kw d then 72 else 0)
                   then 95.0
                   else (((if 0 < backup_load_kw la then battery_kwh d / backup_load_kw la else 0)
                          + (if 0 < generator_kw d then 72 else 0))
                         / expected_outage_hours) * 100) 99) 1"
proof -
  have r: "rel = projr (assess_reliability fac d la)" using assms by simp
  show "avoided_outage_cost rel =
           py_round (critical_load_kw la * expected_outage_hours * cost_per_kwh fac
                     * (critical_load_coverage d * 100 / 100)) 2"
    unfolding r assess_reliability_eq Let_def by simp
  show "reliability_improvement_percent rel =
           py_round
             (min (if expected_outage_hours
                      \<le> (if 0 < backup_load_kw la then battery_kwh d / backup_load_kw la else 0)
                        + (if 0 < generator_kw d then 72 else 0)
                   then 95.0
                   else (((if 0 < backup_load_kw la then battery_kwh d / backup_load_kw la else 0)
                          + (if 0 < generator_kw d then 72 else 0))
                         / expected_outage_hours) * 100) 99) 1"
    unfolding r assess_reliability_eq Let_def by simp
qed

lemma cost_per_kwh_eq:
  "cost_per_kwh fac =
     (if lower (facility_type fac) = ''commercial'' then 25
      else if lower (facility_type fac) = ''industrial'' then 15
      else if lower (facility_type fac) = ''residential'' then 5
      else if lower (facility_type fac) = ''hospital'' then 100
      else 25)"
  by (simp add: cost_per_kwh_def interruption_costs_def)


section \<open>The net cost never falls below the fixed fees\<close>

lemma py_round_2: "py_round x 2 = of_int (round_half_even (x * 100)) / 100"
  by (simp add: py_round_def)

lemma rounded_credit_below_rounded_total:
  assumes "0 \<le> S" and "0 \<le> B" and "1.35 * (S + B) \<le> T"
  shows "(py_round S 2 + py_round B 2) * 0.3 \<le> py_round T 2"
proof -
  define a where "a = round_half_even (S * 100)"
  define b where "b = round_half_even (B * 100)"
  define t where "t = round_half_even (T * 100)"
  have a0: "0 \<le> a" unfolding a_def using assms(1) by (intro round_half_even_ge) simp
  have b0: "0 \<le> b" unfolding b_def using assms(2) by (intro round_half_even_ge) simp
  have h: "27 / 20 * S + 27 / 20 * B \<le> T" using assms(3) by (simp add: algebra_simps)
  have T0: "0 \<le> T" using assms(1,2) h by linarith
  have t0: "0 \<le> t" unfolding t_def using T0 by (intro round_half_even_ge) simp
  have au: "of_int a \<le> S * 100 + 1 / 2" unfolding a_def by (rule round_half_even_upper)
  have bu: "of_int b \<le> B * 100 + 1 / 2" unfolding b_def by (rule round_half_even_upper)
  have tl: "T * 100 - 1 / 2 \<le> of_int t" unfolding t_def by (rule round_half_even_lower)
  have main: "3 * a + 3 * b \<le> 10 * t"
  proof -
    consider "a + b = 0" | "a + b = 1" | "2 \<le> a + b" using a0 b0 by linarith
    then show ?thesis
    proof cases
      case 1
      then show ?thesis using t0 by linarith
    next
      case 2
      then have "a = 1 \<or> b = 1" using a0 b0 by linarith
      then have "1 / 2 \<le> S * 100 + B * 100"
      proof
        assume "a = 1"
        then show ?thesis using au assms(2) by simp
      next
        assume "b = 1"
        then show ?thesis using bu assms(1) by simp
      qed
      then have "(0::rat) < of_int t" using tl h by linarith
      then have "0 < t" by simp
      then show ?thesis using 2 by linarith
    next
      case 3
      then have "(of_int 2 :: rat) \<le> of_int (a + b)" by (simp only: of_int_le_iff)
      then have "(2::rat) \<le> of_int a + of_int b" by simp
      then have "(3::rat) * of_int a + 3 * of_int b \<le> 10 * of_int t"
        using au bu tl h by linarith
      then have "(of_int (3 * a + 3 * b) :: rat) \<le> of_int (10 * t)" by simp
      then show ?thesis by (simp only: of_int_le_iff)
    qed
  qed
  then have "(of_int (3 * a + 3 * b) :: rat) \<le> of_int (10 * t)" by (simp only: of_int_le_iff)
  then have "(3::rat) * of_int a + 3 * of_int b \<le> 10 * of_int t" by simp
  then show ?thesis unfolding py_round_2 a_def b_def t_def by (simp add: field_simps)
qed

lemma net_cost_eq:
  "net_cost c = total_capital_cost c - (solar_pv_cost c + battery_cost c) * 0.3 + 350"
  by (simp add: net_cost_def Let_def federal_itc_rate_def interconnection_fee_commercial_def
      permit_fee_min_def permit_fee_max_def)

lemma capital_cost_covers_credit_base:
  assumes "0 \<le> generator_kw d" and "0 \<le> inverter_kw d"
  shows "1.35 * (solar_pv_kw d * solar_pv_per_kw + battery_kwh d * battery_per_kwh)
           \<le> capital_cost d"
proof -
  have c: "capital_cost d = 27 / 20 * equipment_cost d"
    by (simp add: capital_cost_def bos_percent_def installation_percent_def)
  have g: "0 \<le> generator_kw d * generator_per_kw"
    using assms(1) by (simp add: generator_per_kw_def)
  have i: "0 \<le> inverter_kw d * inverter_per_kw"
    using assms(2) by (simp add: inverter_per_kw_def)
  have "solar_pv_kw d * solar_pv_per_kw + battery_kwh d * battery_per_kwh \<le> equipment_cost d"
    unfolding equipment_cost_def using g i by linarith
  then have "27 / 20 * (solar_pv_kw d * solar_pv_per_kw + battery_kwh d * battery_per_kwh)
               \<le> capital_cost d"
    unfolding c by (intro mult_left_mono) simp_all
  then show ?thesis by simp
qed

lemma net_cost_ge_fees:
  assumes "0 \<le> solar_pv_kw d" and "0 \<le> battery_kwh d"
    and "0 \<le> generator_kw d" and "0 \<le> inverter_kw d"
    and "estimate_costs d = Inr c"
  shows "350 \<le> net_cost c"
proof -
  note csel = estimate_costs_sel [OF assms(5)]
  have S: "0 \<le> solar_pv_kw d * solar_pv_per_kw"
    using assms(1) by (simp add: solar_pv_per_kw_def)
  have B: "0 \<le> battery_kwh d * battery_per_kwh"
    using assms(2) by (simp add: battery_per_kwh_def)
  from rounded_credit_below_rounded_total
    [OF S B capital_cost_covers_credit_base [OF assms(3,4)]]
  have "(solar_pv_cost c + battery_cost c) * 0.3 \<le> total_capital_cost c"
    unfolding csel(1,2,3) .
  then show ?thesis unfolding net_cost_eq by linarith
qed

lemma analyze_financials_sel:
  assumes "analyze_financials fac d c = Inr fin"
  shows "simple_payback_years fin =
           py_round (if 0 < net_annual_savings d c
                     then net_cost c / net_annual_savings d c else 999) 1"
    and "irr fin =
           py_round ((if 0 < net_cost c then net_annual_savings d c / net_cost c else 0)
                     * 100) 2"
    and "net_cost_after_incentives fin = py_round (net_cost c) 2"
proof -
  have f: "fin = projr (analyze_financials fac d c)" using assms by simp
  show "simple_payback_years fin =
           py_round (if 0 < net_annual_savings d c
                     then net_cost c / net_annual_savings d c else 999) 1"
    unfolding f analyze_financials_eq by simp
  show "irr fin =
           py_round ((if 0 < net_cost c then net_annual_savings d c / net_cost c else 0)
                     * 100) 2"
    unfolding f analyze_financials_eq by simp
  show "net_cost_after_incentives fin = py_round (net_cost c) 2"
    unfolding f analyze_financials_eq by simp
qed

lemma valid_chain:
  assumes "valid_facility fac"
  shows "\<exists>la d c fin. analyze_load fac = Inr la \<and> size_system fac la = Inr d \<and>
           estimate_costs d = Inr c \<and> analyze_financials fac d c = Inr fin \<and>
           0 \<le> generator_kw d \<and> 0 \<le> inverter_kw d \<and> 350 \<le> net_cost c"
proof -
  from valid_load_ok [OF assms] obtain la where la: "analyze_load fac = Inr la" ..
  from size_system_ok obtain d where d: "size_system fac la = Inr d" ..
  from estimate_costs_ok obtain c where c: "estimate_costs d = Inr c" ..
  from analyze_financials_ok obtain fin where f: "analyze_financials fac d c = Inr fin" ..
  have p: "0 < peak_demand_kw fac" and h: "0 < backup_duration_hours fac"
    using assms by (simp_all add: valid_facility_def)
  note n = design_nonneg [OF valid_load_nonneg [OF assms la] p h d]
  have "350 \<le> net_cost c" by (rule net_cost_ge_fees [OF n(1,3,4,5) c])
  with la d c f n(4,5) show ?thesis by blast
qed

section \<open>The program against the pipeline with unrounded loads\<close>

lemma analyze_load_unrounded_eq:
  assumes "peak_demand_kw fac \<noteq> 0"
  shows "analyze_load_unrounded fac =
     Inr \<lparr>la_peak_demand_kw = peak_demand_kw fac,
          average_demand_kw = annual_consumption_kwh fac / 8760,
          critical_load_kw = peak_demand_kw fac * (critical_load_percent fac / 100),
          essential_load_kw = peak_demand_kw fac * (essential_load_percent fac / 100),
          non_critical_load_kw =
            peak_demand_kw fac - peak_demand_kw fac * (critical_load_percent fac / 100)
            - peak_demand_kw fac * (essential_load_percent fac / 100),
          backup_load_kw =
            peak_demand_kw fac * (critical_load_percent fac / 100)
            + peak_demand_kw fac * (essential_load_percent fac / 100),
          load_factor = annual_consumption_kwh fac / (peak_demand_kw fac * 8760),
          la_annual_consumption_kwh = annual_consumption_kwh fac\<rparr>"
  using assms by (simp add: analyze_load_unrounded_def py_div_def Let_def)

lemma analyze_load_rounds_unrounded:
  assumes "peak_demand_kw fac \<noteq> 0"
  shows "analyze_load fac = map_sum id round_load_analysis (analyze_load_unrounded fac)"
  unfolding analyze_load_eq [OF assms] analyze_load_unrounded_eq [OF assms]
  by (simp add: round_load_analysis_def)

lemma size_system_cong:
  assumes "average_demand_kw la = average_demand_kw lb"
    and "backup_load_kw la = backup_load_kw lb"
    and "critical_load_kw la = critical_load_kw lb"
  shows "size_system fac la = size_system fac lb"
  unfolding size_system_def assms ..

lemma assess_reliability_cong:
  assumes "backup_load_kw la = backup_load_kw lb"
    and "critical_load_kw la = critical_load_kw lb"
  shows "assess_reliability fac d la = assess_reliability fac d lb"
  unfolding assess_reliability_def assms ..

lemma reference_pipeline_eq:
  assumes "analyze_load_unrounded fac = Inr la" and "size_system fac la = Inr d"
    and "estimate_costs d = Inr c" and "analyze_financials fac d c = Inr fin"
    and "assess_reliability fac d la = Inr rel"
  shows "reference_pipeline fac =
           bind_err (generate_recommendations fac d c fin rel)
             (\<lambda>recs. Inr \<lparr>facility = round_load_analysis la, design = d, costs = c,
                            financial = fin, reliability = rel, recommendations = recs\<rparr>)"
  using assms by (simp add: reference_pipeline_def)

lemma reference_pipeline_ok:
  assumes "analyze_load_unrounded fac = Inr la" and "size_system fac la = Inr d"
    and "battery_kwh d \<le> 0 \<or> battery_kw d \<noteq> 0"
  shows "\<exists>r. reference_pipeline fac = Inr r \<and> design r = d"
proof -
  from estimate_costs_ok obtain c where c: "estimate_costs d = Inr c" ..
  from analyze_financials_ok obtain fin where f: "analyze_financials fac d c = Inr fin" ..
  from assess_reliability_ok obtain rel where r: "assess_reliability fac d la = Inr rel" ..
  from generate_recommendations_ok [OF assms(3)]
  obtain recs where g: "generate_recommendations fac d c fin rel = Inr recs" ..
  show ?thesis
    unfolding reference_pipeline_eq [OF assms(1,2) c f r] by (simp add: g)
qed

section \<open>The claims\<close>




text \<open>
  Claim C2, as stated: the System Sizer and the Reliability Analyzer consume the load
  values at full precision, so that the program equals the pipeline that carries the
  unrounded load analysis. The program hands them the dictionary of \<^verbatim>\<open>analyze_load\<close>,
  whose values are already rounded. For a 200 kW facility with 500000 kWh a year the
  average demand 57.0776 is rounded to 57.08, and the program sizes the solar array at
  275.9 kW where the unrounded value gives 275.8 kW.
\<close>

theorem unrounded_pipeline_counterexample:
  "map_sum id design
     (analyze_microgrid (request ''commercial'' 200 500000 30 40 24 True True True)) =
     Inr \<lparr>solar_pv_kw = 275.9, battery_kw = 154, battery_kwh = 658.8, generator_kw = 168,
          inverter_kw = 303.5, total_generation_kw = 443.9, renewable_fraction = 0.622,
          critical_load_coverage = 1\<rparr> \<and>
   map_sum id design
     (reference_pipeline (request ''commercial'' 200 500000 30 40 24 True True True)) =
     Inr \<lparr>solar_pv_kw = 275.8, battery_kw = 154, battery_kwh = 658.8, generator_kw = 168,
          inverter_kw = 303.4, total_generation_kw = 443.8, renewable_fraction = 0.621,
          critical_load_coverage = 1\<rparr> \<and>
   analyze_microgrid (request ''commercial'' 200 500000 30 40 24 True True True)
     \<noteq> reference_pipeline (request ''commercial'' 200 500000 30 40 24 True True True)"
proof -
  define Da where "Da = \<lparr>solar_pv_kw = 275.9, battery_kw = 154, battery_kwh = 658.8,
      generator_kw = 168, inverter_kw = 303.5, total_generation_kw = 443.9,
      renewable_fraction = 0.622, critical_load_coverage = 1\<rparr>"
  define Db where "Db = \<lparr>solar_pv_kw = 275.8, battery_kw = 154, battery_kwh = 658.8,
      generator_kw = 168, inverter_kw = 303.4, total_generation_kw = 443.8,
      renewable_fraction = 0.621, critical_load_coverage = 1\<rparr>"
  have la: "analyze_load (request ''commercial'' 200 500000 30 40 24 True True True) =
     Inr \<lparr>la_peak_demand_kw = 200, average_demand_kw = 57.08, critical_load_kw = 60,
          essential_load_kw = 80, non_critical_load_kw = 60, backup_load_kw = 140,
          load_factor = 0.285, la_annual_consumption_kwh = 500000\<rparr>"
    by code_simp
  have da: "size_system (request ''commercial'' 200 500000 30 40 24 True True True)
     \<lparr>la_peak_demand_kw = 200, average_demand_kw = 57.08, critical_load_kw = 60,
      essential_load_kw = 80, non_critical_load_kw = 60, backup_load_kw = 140,
      load_factor = 0.285, la_annual_consumption_kwh = 500000\<rparr> = Inr Da"
    unfolding Da_def by code_simp
  have lu: "analyze_load_unrounded (request ''commercial'' 200 500000 30 40 24 True True True) =
     Inr \<lparr>la_peak_demand_kw = 200, average_demand_kw = 12500 / 219, critical_load_kw = 60,
          essential_load_kw = 80, non_critical_load_kw = 60, backup_load_kw = 140,
          load_factor = 125 / 438, la_annual_consumption_kwh = 500000\<rparr>"
    by code_simp
  have db: "size_system (request ''commercial'' 200 500000 30 40 24 True True True)
     \<lparr>la_peak_demand_kw = 200, average_demand_kw = 12500 / 219, critical_load_kw = 60,
      essential_load_kw = 80, non_critical_load_kw = 60, backup_load_kw = 140,
      load_factor = 125 / 438, la_annual_consumption_kwh = 500000\<rparr> = Inr Db"
    unfolding Db_def by code_simp
  from estimate_costs_ok obtain c where c: "estimate_costs Da = Inr c" ..
  have ga: "battery_kwh Da \<le> 0 \<or> battery_kw Da \<noteq> 0" unfolding Da_def by simp
  have gb: "battery_kwh Db \<le> 0 \<or> battery_kw Db \<noteq> 0" unfolding Db_def by simp
  from analyze_microgrid_ok [OF la da c ga] obtain ra
    where ra: "analyze_microgrid (request ''commercial'' 200 500000 30 40 24 True True True)
                 = Inr ra" "design ra = Da"
    by blast
  from reference_pipeline_ok [OF lu db gb] obtain rb
    where rb: "reference_pipeline (request ''commercial'' 200 500000 30 40 24 True True True)
                 = Inr rb" "design rb = Db"
    by blast
  have ne: "Da \<noteq> Db" unfolding Da_def Db_def by simp
  have a: "map_sum id design
     (analyze_microgrid (request ''commercial'' 200 500000 30 40 24 True True True)) = Inr Da"
    unfolding ra(1) by (simp add: ra(2))
  have b: "map_sum id design
     (reference_pipeline (request ''commercial'' 200 500000 30 40 24 True True True)) = Inr Db"
    unfolding rb(1) by (simp add: rb(2))
  have n: "analyze_microgrid (request ''commercial'' 200 500000 30 40 24 True True True)
     \<noteq> reference_pipeline (request ''commercial'' 200 500000 30 40 24 True True True)"
    unfolding ra(1) rb(1) using ra(2) rb(2) ne by auto
  note facts = a [unfolded Da_def] b [unfolded Db_def] n
  show ?thesis by (intro conjI) (rule facts)+
qed

text \<open>
  Claim C2, amended. The load analysis that the System Sizer and the Reliability Analyzer
  consume is the full-precision one rounded to two decimals (three for the load factor).
  The program equals the pipeline that carries the unrounded values whenever rounding to
  two decimals leaves the average demand, the critical load and the backup load of the
  request unchanged.
\<close>

theorem pipeline_carries_rounded_loads:
  assumes "valid_facility fac"
    and "py_round (annual_consumption_kwh fac / 8760) 2 = annual_consumption_kwh fac / 8760"
    and "py_round (peak_demand_kw fac * (critical_load_percent fac / 100)) 2
           = peak_demand_kw fac * (critical_load_percent fac / 100)"
    and "py_round (peak_demand_kw fac * (critical_load_percent fac / 100)
                   + peak_demand_kw fac * (essential_load_percent fac / 100)) 2
           = peak_demand_kw fac * (critical_load_percent fac / 100)
             + peak_demand_kw fac * (essential_load_percent fac / 100)"
  shows "analyze_load fac = map_sum id round_load_analysis (analyze_load_unrounded fac) \<and>
         analyze_microgrid fac = reference_pipeline fac"
proof -
  have pz: "peak_demand_kw fac \<noteq> 0" using assms(1) by (simp add: valid_facility_def)
  note first = analyze_load_rounds_unrounded [OF pz]
  define lu where "lu = projr (analyze_load_unrounded fac)"
  define la where "la = round_load_analysis lu"
  have eu: "analyze_load_unrounded fac = Inr lu"
    unfolding lu_def analyze_load_unrounded_eq [OF pz] by simp
  have ea: "analyze_load fac = Inr la"
    unfolding first eu la_def by simp
  have avg: "average_demand_kw lu = average_demand_kw la"
    unfolding la_def round_load_analysis_def lu_def analyze_load_unrounded_eq [OF pz]
    using assms(2) by simp
  have crit: "critical_load_kw lu = critical_load_kw la"
    unfolding la_def round_load_analysis_def lu_def analyze_load_unrounded_eq [OF pz]
    using assms(3) by simp
  have bkl: "backup_load_kw lu = backup_load_kw la"
    unfolding la_def round_load_analysis_def lu_def analyze_load_unrounded_eq [OF pz]
    using assms(4) by simp
  have ss: "size_system fac lu = size_system fac la"
    by (rule size_system_cong [OF avg bkl crit])
  have ar: "assess_reliability fac d lu = assess_reliability fac d la" for d
    by (rule assess_reliability_cong [OF bkl crit])
  have "analyze_microgrid fac = reference_pipeline fac"
    unfolding analyze_microgrid_def reference_pipeline_def ea eu
    by (simp add: ss ar la_def)
  with first show ?thesis ..
qed

theorem pipeline_carries_rounded_loads_witness:
  "valid_facility (request ''commercial'' 500 1752000 30 40 24 True True True) \<and>
   analyze_load (request ''commercial'' 500 1752000 30 40 24 True True True) =
     map_sum id round_load_analysis
       (analyze_load_unrounded (request ''commercial'' 500 1752000 30 40 24 True True True)) \<and>
   analyze_microgrid (request ''commercial'' 500 1752000 30 40 24 True True True) =
     reference_pipeline (request ''commercial'' 500 1752000 30 40 24 True True True)"
proof -
  have v: "valid_facility (request ''commercial'' 500 1752000 30 40 24 True True True)"
    by (simp add: valid_facility_def request_def)
  have h1: "py_round
      (annual_consumption_kwh (request ''commercial'' 500 1752000 30 40 24 True True True)
       / 8760) 2 =
      annual_consumption_kwh (request ''commercial'' 500 1752000 30 40 24 True True True)
      / 8760"
    by code_simp
  have h2: "py_round
      (peak_demand_kw (request ''commercial'' 500 1752000 30 40 24 True True True)
       * (critical_load_percent (request ''commercial'' 500 1752000 30 40 24 True True True)
          / 100)) 2 =
      peak_demand_kw (request ''commercial'' 500 1752000 30 40 24 True True True)
      * (critical_load_percent (request ''commercial'' 500 1752000 30 40 24 True True True)
         / 100)"
    by code_simp
  have h3: "py_round
      (peak_demand_kw (request ''commercial'' 500 1752000 30 40 24 True True True)
       * (critical_load_percent (request ''commercial'' 500 1752000 30 40 24 True True True)
          / 100)
       + peak_demand_kw (request ''commercial'' 500 1752000 30 40 24 True True True)
         * (essential_load_percent (request ''commercial'' 500 1752000 30 40 24 True True True)
            / 100)) 2 =
      peak_demand_kw (request ''commercial'' 500 1752000 30 40 24 True True True)
      * (critical_load_percent (request ''commercial'' 500 1752000 30 40 24 True True True)
         / 100)
      + peak_demand_kw (request ''commercial'' 500 1752000 30 40 24 True True True)
        * (essential_load_percent (request ''commercial'' 500 1752000 30 40 24 True True True)
           / 100)"
    by code_simp
  from pipeline_carries_rounded_loads [OF v h1 h2 h3] show ?thesis
    using v by (intro conjI) simp_all
qed

text \<open>
  Claim C3. Every division by a derived quantity is meant to be guarded, so that no
  \<^verbatim>\<open>ZeroDivisionError\<close> reaches the caller. The five calculation stages keep to this
  (the closed forms above), but \<^verbatim>\<open>generate_recommendations\<close> divides
  \<^verbatim>\<open>battery_kwh\<close> by \<^verbatim>\<open>battery_kw\<close> under the guard \<^verbatim>\<open>battery_kwh > 0\<close>. For a
  valid request with a backup load of 0.02 kW the battery energy rounds to 0.1 kWh and
  the battery power to 0.0 kW, and the handler ends with the error.
\<close>

theorem recommendations_divide_by_zero:
  "analyze_load (request ''commercial'' 1 1000 2 0 24 True True True) =
     Inr \<lparr>la_peak_demand_kw = 1, average_demand_kw = 11 / 100, critical_load_kw = 1 / 50,
          essential_load_kw = 0, non_critical_load_kw = 49 / 50, backup_load_kw = 1 / 50,
          load_factor = 57 / 500, la_annual_consumption_kwh = 1000\<rparr> \<and>
   size_system (request ''commercial'' 1 1000 2 0 24 True True True)
     \<lparr>la_peak_demand_kw = 1, average_demand_kw = 11 / 100, critical_load_kw = 1 / 50,
      essential_load_kw = 0, non_critical_load_kw = 49 / 50, backup_load_kw = 1 / 50,
      load_factor = 57 / 500, la_annual_consumption_kwh = 1000\<rparr> =
     Inr \<lparr>solar_pv_kw = 1 / 2, battery_kw = 0, battery_kwh = 1 / 10, generator_kw = 0,
          inverter_kw = 3 / 5, total_generation_kw = 1 / 2, renewable_fraction = 1,
          critical_load_coverage = 0\<rparr> \<and>
   analyze_microgrid (request ''commercial'' 1 1000 2 0 24 True True True) =
     Inl ZeroDivisionError"
proof -
  have la: "analyze_load (request ''commercial'' 1 1000 2 0 24 True True True) =
     Inr \<lparr>la_peak_demand_kw = 1, average_demand_kw = 11 / 100, critical_load_kw = 1 / 50,
          essential_load_kw = 0, non_critical_load_kw = 49 / 50, backup_load_kw = 1 / 50,
          load_factor = 57 / 500, la_annual_consumption_kwh = 1000\<rparr>"
    by code_simp
  have d: "size_system (request ''commercial'' 1 1000 2 0 24 True True True)
     \<lparr>la_peak_demand_kw = 1, average_demand_kw = 11 / 100, critical_load_kw = 1 / 50,
      essential_load_kw = 0, non_critical_load_kw = 49 / 50, backup_load_kw = 1 / 50,
      load_factor = 57 / 500, la_annual_consumption_kwh = 1000\<rparr> =
     Inr \<lparr>solar_pv_kw = 1 / 2, battery_kw = 0, battery_kwh = 1 / 10, generator_kw = 0,
          inverter_kw = 3 / 5, total_generation_kw = 1 / 2, renewable_fraction = 1,
          critical_load_coverage = 0\<rparr>"
    by code_simp
  have "analyze_microgrid (request ''commercial'' 1 1000 2 0 24 True True True) =
     Inl ZeroDivisionError"
    by (rule analyze_microgrid_raises [OF la d]) simp_all
  with la d show ?thesis by blast
qed




text \<open>
  Claim C5, as stated: the payback returned is the sentinel 999 if and only if the net
  annual savings are not positive. For a 1000 kW facility with 268800 kWh a year, 96%
  critical load, solar and generator but no battery, the net annual savings are positive
  (about 1701.61 dollars a year) and the payback of 998.97 years is returned, rounded to
  one decimal, as 999.
\<close>

theorem payback_sentinel_counterexample:
  "analyze_load (request ''commercial'' 1000 268800 96 0 24 True False True) =
     Inr \<lparr>la_peak_demand_kw = 1000, average_demand_kw = 30.68, critical_load_kw = 960,
          essential_load_kw = 0, non_critical_load_kw = 40, backup_load_kw = 960,
          load_factor = 0.031, la_annual_consumption_kwh = 268800\<rparr> \<and>
   size_system (request ''commercial'' 1000 268800 96 0 24 True False True)
     \<lparr>la_peak_demand_kw = 1000, average_demand_kw = 30.68, critical_load_kw = 960,
      essential_load_kw = 0, non_critical_load_kw = 40, backup_load_kw = 960,
      load_factor = 0.031, la_annual_consumption_kwh = 268800\<rparr> =
     Inr \<lparr>solar_pv_kw = 148.3, battery_kw = 0, battery_kwh = 0, generator_kw = 1152,
          inverter_kw = 1056, total_generation_kw = 1300.3, renewable_fraction = 0.114,
          critical_load_coverage = 1\<rparr> \<and>
   estimate_costs
     \<lparr>solar_pv_kw = 148.3, battery_kw = 0, battery_kwh = 0, generator_kw = 1152,
      inverter_kw = 1056, total_generation_kw = 1300.3, renewable_fraction = 0.114,
      critical_load_coverage = 1\<rparr> =
     Inr \<lparr>solar_pv_cost = 230013.3, battery_cost = 0, generator_cost = 921600,
          inverter_cost = 158400, bos_cost = 196502, installation_cost = 262002.66,
          total_capital_cost = 1768517.96, annual_om_cost = 26527.77,
          cost_per_kw = 1360.08\<rparr> \<and>
   0 < net_annual_savings
         \<lparr>solar_pv_kw = 148.3, battery_kw = 0, battery_kwh = 0, generator_kw = 1152,
          inverter_kw = 1056, total_generation_kw = 1300.3, renewable_fraction = 0.114,
          critical_load_coverage = 1\<rparr>
         \<lparr>solar_pv_cost = 230013.3, battery_cost = 0, generator_cost = 921600,
          inverter_cost = 158400, bos_cost = 196502, installation_cost = 262002.66,
          total_capital_cost = 1768517.96, annual_om_cost = 26527.77,
          cost_per_kw = 1360.08\<rparr> \<and>
   map_sum id simple_payback_years
     (analyze_financials (request ''commercial'' 1000 268800 96 0 24 True False True)
        \<lparr>solar_pv_kw = 148.3, battery_kw = 0, battery_kwh = 0, generator_kw = 1152,
         inverter_kw = 1056, total_generation_kw = 1300.3, renewable_fraction = 0.114,
         critical_load_coverage = 1\<rparr>
        \<lparr>solar_pv_cost = 230013.3, battery_cost = 0, generator_cost = 921600,
         inverter_cost = 158400, bos_cost = 196502, installation_cost = 262002.66,
         total_capital_cost = 1768517.96, annual_om_cost = 26527.77,
         cost_per_kw = 1360.08\<rparr>) = Inr 999"
proof -
  define D where "D = \<lparr>solar_pv_kw = 148.3, battery_kw = 0, battery_kwh = 0,
      generator_kw = 1152, inverter_kw = 1056, total_generation_kw = 1300.3,
      renewable_fraction = 0.114, critical_load_coverage = 1\<rparr>"
  define C where "C = \<lparr>solar_pv_cost = 230013.3, battery_cost = 0, generator_cost = 921600,
      inverter_cost = 158400, bos_cost = 196502, installation_cost = 262002.66,
      total_capital_cost = 1768517.96, annual_om_cost = 26527.77, cost_per_kw = 1360.08\<rparr>"
  have la: "analyze_load (request ''commercial'' 1000 268800 96 0 24 True False True) =
     Inr \<lparr>la_peak_demand_kw = 1000, average_demand_kw = 30.68, critical_load_kw = 960,
          essential_load_kw = 0, non_critical_load_kw = 40, backup_load_kw = 960,
          load_factor = 0.031, la_annual_consumption_kwh = 268800\<rparr>"
    by code_simp
  have d: "size_system (request ''commercial'' 1000 268800 96 0 24 True False True)
     \<lparr>la_peak_demand_kw = 1000, average_demand_kw = 30.68, critical_load_kw = 960,
      essential_load_kw = 0, non_critical_load_kw = 40, backup_load_kw = 960,
      load_factor = 0.031, la_annual_consumption_kwh = 268800\<rparr> = Inr D"
    unfolding D_def by code_simp
  have c: "estimate_costs D = Inr C"
    unfolding D_def C_def by code_simp
  have nas: "net_annual_savings D C = 21270162507 / 12500000"
    unfolding D_def C_def by code_simp
  have nc: "net_cost C = 169986397 / 100"
    unfolding C_def by code_simp
  have pos: "0 < net_annual_savings D C" unfolding nas by simp
  have r: "py_round ((169986397 / 100) / (21270162507 / 12500000)) 1 = 999"
    by code_simp
  from analyze_financials_ok
  obtain fin where f: "analyze_financials (request ''commercial'' 1000 268800 96 0 24 True False True) D C = Inr fin" ..
  have "simple_payback_years fin = 999"
    unfolding analyze_financials_sel(1) [OF f] using pos r by (simp add: nas nc)
  then have m: "map_sum id simple_payback_years
     (analyze_financials (request ''commercial'' 1000 268800 96 0 24 True False True) D C)
       = Inr 999"
    unfolding f by simp
  note facts = la d [unfolded D_def] c [unfolded D_def C_def] pos [unfolded D_def C_def]
    m [unfolded D_def C_def]
  show ?thesis by (intro conjI) (rule facts)+
qed

text \<open>
  Claim C5, amended. For every valid request the payback returned is 999 whenever the
  net annual savings are not positive, and otherwise the net cost divided by the net
  annual savings, rounded to one decimal; it is never negative. A positive saving can
  itself give 999, or a larger number of years.
\<close>

theorem payback_sentinel_or_rounded_ratio:
  assumes "valid_facility fac"
  shows "\<exists>la d c fin. analyze_load fac = Inr la \<and> size_system fac la = Inr d \<and>
           estimate_costs d = Inr c \<and> analyze_financials fac d c = Inr fin \<and>
           simple_payback_years fin =
             (if 0 < net_annual_savings d c
              then py_round (net_cost c / net_annual_savings d c) 1 else 999) \<and>
           0 \<le> simple_payback_years fin"
proof -
  from valid_chain [OF assms] obtain la d c fin
    where la: "analyze_load fac = Inr la" and d: "size_system fac la = Inr d"
      and c: "estimate_costs d = Inr c" and f: "analyze_financials fac d c = Inr fin"
      and nc: "350 \<le> net_cost c"
    by blast
  have n999: "py_round 999 k = 999" for k using py_round_of_int [of 999 k] by simp
  have e: "simple_payback_years fin =
             (if 0 < net_annual_savings d c
              then py_round (net_cost c / net_annual_savings d c) 1 else 999)"
    unfolding analyze_financials_sel(1) [OF f] by (simp add: n999)
  have "0 \<le> net_cost c / net_annual_savings d c" if "0 < net_annual_savings d c"
    using that nc by simp
  then have "0 \<le> simple_payback_years fin"
    unfolding e by (simp add: py_round_nonneg)
  with la d c f e show ?thesis by blast
qed

theorem payback_sentinel_or_rounded_ratio_witness:
  "valid_facility (request ''commercial'' 1000 268800 96 0 24 True False True) \<and>
   (\<exists>la d c fin.
      analyze_load (request ''commercial'' 1000 268800 96 0 24 True False True) = Inr la \<and>
      size_system (request ''commercial'' 1000 268800 96 0 24 True False True) la = Inr d \<and>
      estimate_costs d = Inr c \<and>
      analyze_financials (request ''commercial'' 1000 268800 96 0 24 True False True) d c
        = Inr fin \<and>
      simple_payback_years fin =
        (if 0 < net_annual_savings d c
         then py_round (net_cost c / net_annual_savings d c) 1 else 999) \<and>
      0 \<le> simple_payback_years fin)"
proof -
  have v: "valid_facility (request ''commercial'' 1000 268800 96 0 24 True False True)"
    by (simp add: valid_facility_def request_def)
  from payback_sentinel_or_rounded_ratio [OF v] show ?thesis
    using v by blast
qed

text \<open>
  Claim C6. For every valid request, all eight quantities of the design returned by the
  System Sizer are non-negative, and the solar size, the battery power and energy and the
  generator size are exactly 0 when the matching inclusion flag is false.
\<close>

theorem design_nonneg_and_gated:
  assumes "valid_facility fac"
  shows "\<exists>la d. analyze_load fac = Inr la \<and> size_system fac la = Inr d \<and>
           0 \<le> solar_pv_kw d \<and> 0 \<le> battery_kw d \<and> 0 \<le> battery_kwh d \<and>
           0 \<le> generator_kw d \<and> 0 \<le> inverter_kw d \<and> 0 \<le> total_generation_kw d \<and>
           0 \<le> renewable_fraction d \<and> 0 \<le> critical_load_coverage d \<and>
           (\<not> include_solar fac \<longrightarrow> solar_pv_kw d = 0) \<and>
           (\<not> include_battery fac \<longrightarrow> battery_kw d = 0 \<and> battery_kwh d = 0) \<and>
           (\<not> include_generator fac \<longrightarrow> generator_kw d = 0)"
proof -
  from valid_load_ok [OF assms] obtain la where la: "analyze_load fac = Inr la" ..
  from size_system_ok obtain d where d: "size_system fac la = Inr d" ..
  have p: "0 < peak_demand_kw fac" and h: "0 < backup_duration_hours fac"
    using assms by (simp_all add: valid_facility_def)
  note n = design_nonneg [OF valid_load_nonneg [OF assms la] p h d]
  note sel = size_system_sel [OF d]
  have "\<not> include_solar fac \<longrightarrow> solar_pv_kw d = 0"
    by (simp add: sel(1))
  moreover have "\<not> include_battery fac \<longrightarrow> battery_kw d = 0 \<and> battery_kwh d = 0"
    by (simp add: sel(2,3))
  moreover have "\<not> include_generator fac \<longrightarrow> generator_kw d = 0"
    by (simp add: sel(4))
  ultimately show ?thesis using la d n by blast
qed

theorem design_nonneg_and_gated_witness:
  "valid_facility (request ''commercial'' 500 2000000 30 40 24 False False False) \<and>
   (\<exists>la d. analyze_load (request ''commercial'' 500 2000000 30 40 24 False False False) = Inr la \<and>
      size_system (request ''commercial'' 500 2000000 30 40 24 False False False) la = Inr d \<and>
      0 \<le> solar_pv_kw d \<and> 0 \<le> battery_kw d \<and> 0 \<le> battery_kwh d \<and>
      0 \<le> generator_kw d \<and> 0 \<le> inverter_kw d \<and> 0 \<le> total_generation_kw d \<and>
      0 \<le> renewable_fraction d \<and> 0 \<le> critical_load_coverage d \<and>
      solar_pv_kw d = 0 \<and> battery_kw d = 0 \<and> battery_kwh d = 0 \<and> generator_kw d = 0)"
proof -
  have v: "valid_facility (request ''commercial'' 500 2000000 30 40 24 False False False)"
    by (simp add: valid_facility_def request_def)
  from design_nonneg_and_gated [OF v] show ?thesis
    using v by (simp add: request_def)
qed

text \<open>
  Claim C7. For every valid request the critical-load coverage of the design lies between
  0 and 1, and with a critical percentage of 0 the guarded branch returns exactly 1
  without dividing.
\<close>

theorem coverage_in_unit_interval:
  assumes "valid_facility fac"
  shows "\<exists>la d. analyze_load fac = Inr la \<and> size_system fac la = Inr d \<and>
           0 \<le> critical_load_coverage d \<and> critical_load_coverage d \<le> 1 \<and>
           (critical_load_percent fac = 0 \<longrightarrow> critical_load_coverage d = 1)"
proof -
  have pz: "peak_demand_kw fac \<noteq> 0" using assms by (simp add: valid_facility_def)
  from valid_load_ok [OF assms] obtain la where la: "analyze_load fac = Inr la" ..
  from size_system_ok obtain d where d: "size_system fac la = Inr d" ..
  have p: "0 < peak_demand_kw fac" and h: "0 < backup_duration_hours fac"
    using assms by (simp_all add: valid_facility_def)
  note n = design_nonneg [OF valid_load_nonneg [OF assms la] p h d]
  note sel = size_system_sel [OF d]
  have le: "critical_load_coverage d \<le> 1"
    unfolding sel(8) by (intro py_round_le_one) simp
  have "critical_load_coverage d = 1" if z: "critical_load_percent fac = 0"
  proof -
    have "critical_load_kw la = 0"
      unfolding analyze_load_sel(2) [OF pz la] z by (simp add: py_round_zero)
    then show ?thesis
      unfolding sel(8) by (simp add: py_round_one)
  qed
  then show ?thesis using la d n(8) le by blast
qed

theorem coverage_in_unit_interval_witness:
  "valid_facility (request ''commercial'' 500 2000000 0 40 24 True True True) \<and>
   (\<exists>la d. analyze_load (request ''commercial'' 500 2000000 0 40 24 True True True) = Inr la \<and>
      size_system (request ''commercial'' 500 2000000 0 40 24 True True True) la = Inr d \<and>
      0 \<le> critical_load_coverage d \<and> critical_load_coverage d \<le> 1 \<and>
      critical_load_coverage d = 1)"
proof -
  have v: "valid_facility (request ''commercial'' 500 2000000 0 40 24 True True True)"
    by (simp add: valid_facility_def request_def)
  from coverage_in_unit_interval [OF v] show ?thesis
    using v by (simp add: request_def)
qed




text \<open>
  Claim C9, as stated: a facility type that is not a key of the interruption-cost table
  gets the default rate of 25 $/kWh. The type \<^verbatim>\<open>Hospital\<close> is not a key of the table,
  whose keys are in lower case, yet the program lower-cases the type before the lookup
  and charges the hospital rate of 100 $/kWh: the avoided outage cost is 65250, where the
  default rate would give 16312.50.
\<close>

theorem interruption_rate_counterexample:
  "map_of interruption_costs
     (facility_type (request ''Hospital'' 200 500000 30 40 24 True True True)) = None \<and>
   cost_per_kwh (request ''Hospital'' 200 500000 30 40 24 True True True) = 100 \<and>
   analyze_load (request ''Hospital'' 200 500000 30 40 24 True True True) =
     Inr \<lparr>la_peak_demand_kw = 200, average_demand_kw = 57.08, critical_load_kw = 60,
          essential_load_kw = 80, non_critical_load_kw = 60, backup_load_kw = 140,
          load_factor = 0.285, la_annual_consumption_kwh = 500000\<rparr> \<and>
   size_system (request ''Hospital'' 200 500000 30 40 24 True True True)
     \<lparr>la_peak_demand_kw = 200, average_demand_kw = 57.08, critical_load_kw = 60,
      essential_load_kw = 80, non_critical_load_kw = 60, backup_load_kw = 140,
      load_factor = 0.285, la_annual_consumption_kwh = 500000\<rparr> =
     Inr \<lparr>solar_pv_kw = 275.9, battery_kw = 154, battery_kwh = 658.8, generator_kw = 168,
          inverter_kw = 303.5, total_generation_kw = 443.9, renewable_fraction = 0.622,
          critical_load_coverage = 1\<rparr> \<and>
   assess_reliability (request ''Hospital'' 200 500000 30 40 24 True True True)
     \<lparr>solar_pv_kw = 275.9, battery_kw = 154, battery_kwh = 658.8, generator_kw = 168,
      inverter_kw = 303.5, total_generation_kw = 443.9, renewable_fraction = 0.622,
      critical_load_coverage = 1\<rparr>
     \<lparr>la_peak_demand_kw = 200, average_demand_kw = 57.08, critical_load_kw = 60,
      essential_load_kw = 80, non_critical_load_kw = 60, backup_load_kw = 140,
      load_factor = 0.285, la_annual_consumption_kwh = 500000\<rparr> =
     Inr \<lparr>ra_backup_duration_hours = 76.7, critical_load_coverage_percent = 100,
          expected_outage_hours_per_year = 10.9, avoided_outage_cost = 65250,
          reliability_improvement_percent = 95\<rparr> \<and>
   py_round (60 * expected_outage_hours * 25 * (1 * 100 / 100)) 2 = 16312.5"
proof -
  have "map_of interruption_costs
     (facility_type (request ''Hospital'' 200 500000 30 40 24 True True True)) = None"
    by code_simp
  moreover have "cost_per_kwh (request ''Hospital'' 200 500000 30 40 24 True True True) = 100"
    by code_simp
  moreover have "analyze_load (request ''Hospital'' 200 500000 30 40 24 True True True) =
     Inr \<lparr>la_peak_demand_kw = 200, average_demand_kw = 57.08, critical_load_kw = 60,
          essential_load_kw = 80, non_critical_load_kw = 60, backup_load_kw = 140,
          load_factor = 0.285, la_annual_consumption_kwh = 500000\<rparr>"
    by code_simp
  moreover have "size_system (request ''Hospital'' 200 500000 30 40 24 True True True)
     \<lparr>la_peak_demand_kw = 200, average_demand_kw = 57.08, critical_load_kw = 60,
      essential_load_kw = 80, non_critical_load_kw = 60, backup_load_kw = 140,
      load_factor = 0.285, la_annual_consumption_kwh = 500000\<rparr> =
     Inr \<lparr>solar_pv_kw = 275.9, battery_kw = 154, battery_kwh = 658.8, generator_kw = 168,
          inverter_kw = 303.5, total_generation_kw = 443.9, renewable_fraction = 0.622,
          critical_load_coverage = 1\<rparr>"
    by code_simp
  moreover have "assess_reliability (request ''Hospital'' 200 500000 30 40 24 True True True)
     \<lparr>solar_pv_kw = 275.9, battery_kw = 154, battery_kwh = 658.8, generator_kw = 168,
      inverter_kw = 303.5, total_generation_kw = 443.9, renewable_fraction = 0.622,
      critical_load_coverage = 1\<rparr>
     \<lparr>la_peak_demand_kw = 200, average_demand_kw = 57.08, critical_load_kw = 60,
      essential_load_kw = 80, non_critical_load_kw = 60, backup_load_kw = 140,
      load_factor = 0.285, la_annual_consumption_kwh = 500000\<rparr> =
     Inr \<lparr>ra_backup_duration_hours = 76.7, critical_load_coverage_percent = 100,
          expected_outage_hours_per_year = 10.9, avoided_outage_cost = 65250,
          reliability_improvement_percent = 95\<rparr>"
    by code_simp
  moreover have "py_round (60 * expected_outage_hours * 25 * (1 * 100 / 100)) 2 = 16312.5"
    by code_simp
  ultimately show ?thesis by blast
qed

text \<open>
  Claim C9, amended. The Reliability Analyzer never fails on the facility type. It
  computes the avoided outage cost with the table rate of the lower-cased facility type
  (commercial 25, industrial 15, residential 5, hospital 100), and with the default rate
  of 25 $/kWh when the lower-cased type is not a key of the table.
\<close>

theorem interruption_rate_by_lowercased_type:
  "\<exists>rel. assess_reliability fac d la = Inr rel \<and>
     avoided_outage_cost rel =
       py_round (critical_load_kw la * expected_outage_hours
                 * (if lower (facility_type fac) = ''commercial'' then 25
                    else if lower (facility_type fac) = ''industrial'' then 15
                    else if lower (facility_type fac) = ''residential'' then 5
                    else if lower (facility_type fac) = ''hospital'' then 100
                    else 25)
                 * (critical_load_coverage d * 100 / 100)) 2"
proof -
  from assess_reliability_ok obtain rel where r: "assess_reliability fac d la = Inr rel" ..
  show ?thesis
    using r assess_reliability_sel(1) [OF r] unfolding cost_per_kwh_eq by blast
qed

text \<open>
  Claim C10, as stated: for every request the net cost after incentives is at least the
  350 dollars of fixed fees, so that the fallback branch of the approximate IRR is never
  taken. For a valid request with a peak demand of \<open>10 ^ 306\<close> kW, 85% critical load, a
  battery and a generator, the battery cost and the total capital cost overflow to
  infinity, the tax credit is infinite too, and the net cost is their difference,
  not-a-number. The net cost returned is not-a-number, the guard \<^verbatim>\<open>net_cost > 0\<close> is false
  and the IRR takes the fallback 0.
\<close>

theorem net_cost_overflow_counterexample:
  "valid_facility (request ''commercial'' (10 ^ 306) 1752000 85 0 24 False True True) \<and>
   analyze_load_f (request ''commercial'' (10 ^ 306) 1752000 85 0 24 False True True) =
     Inr \<lparr>peak_demand_kw_f = Fin (10 ^ 306), average_demand_kw_f = Fin 200,
      critical_load_kw_f = Fin (85 * 10 ^ 304), essential_load_kw_f = Fin 0,
      non_critical_load_kw_f = Fin (15 * 10 ^ 304), backup_load_kw_f = Fin (85 * 10 ^ 304),
      load_factor_f = Fin 0, annual_consumption_kwh_f = Fin 1752000\<rparr> \<and>
   size_system_f (request ''commercial'' (10 ^ 306) 1752000 85 0 24 False True True)
     \<lparr>peak_demand_kw_f = Fin (10 ^ 306), average_demand_kw_f = Fin 200,
      critical_load_kw_f = Fin (85 * 10 ^ 304), essential_load_kw_f = Fin 0,
      non_critical_load_kw_f = Fin (15 * 10 ^ 304), backup_load_kw_f = Fin (85 * 10 ^ 304),
      load_factor_f = Fin 0, annual_consumption_kwh_f = Fin 1752000\<rparr> =
     Inr \<lparr>solar_pv_kw_f = Fin 0, battery_kw_f = Fin (935 * 10 ^ 303),
      battery_kwh_f = Fin (4 * 10 ^ 306), generator_kw_f = Fin (102 * 10 ^ 304),
      inverter_kw_f = Fin (10285 * 10 ^ 302), total_generation_kw_f = Fin (102 * 10 ^ 304),
      renewable_fraction_f = Fin 0, critical_load_coverage_f = Fin 1\<rparr> \<and>
   estimate_costs_f
     \<lparr>solar_pv_kw_f = Fin 0, battery_kw_f = Fin (935 * 10 ^ 303),
      battery_kwh_f = Fin (4 * 10 ^ 306), generator_kw_f = Fin (102 * 10 ^ 304),
      inverter_kw_f = Fin (10285 * 10 ^ 302), total_generation_kw_f = Fin (102 * 10 ^ 304),
      renewable_fraction_f = Fin 0, critical_load_coverage_f = Fin 1\<rparr> =
     Inr \<lparr>solar_pv_cost_f = Fin 0, battery_cost_f = PosInf, generator_cost_f = PosInf,
      inverter_cost_f = Fin (154275 * 10 ^ 303), bos_cost_f = PosInf,
      installation_cost_f = PosInf, total_capital_cost_f = PosInf,
      annual_om_cost_f = PosInf, cost_per_kw_f = PosInf\<rparr> \<and>
   net_cost_f
     \<lparr>solar_pv_cost_f = Fin 0, battery_cost_f = PosInf, generator_cost_f = PosInf,
      inverter_cost_f = Fin (154275 * 10 ^ 303), bos_cost_f = PosInf,
      installation_cost_f = PosInf, total_capital_cost_f = PosInf,
      annual_om_cost_f = PosInf, cost_per_kw_f = PosInf\<rparr> = NaN \<and>
   f_round NaN 2 = NaN \<and>
   \<not> f_less (Fin 0) NaN"
proof -
  have v: "valid_facility (request ''commercial'' (10 ^ 306) 1752000 85 0 24 False True True)"
    by (simp add: valid_facility_def request_def)
  have la: "analyze_load_f (request ''commercial'' (10 ^ 306) 1752000 85 0 24 False True True) =
     Inr \<lparr>peak_demand_kw_f = Fin (10 ^ 306), average_demand_kw_f = Fin 200,
      critical_load_kw_f = Fin (85 * 10 ^ 304), essential_load_kw_f = Fin 0,
      non_critical_load_kw_f = Fin (15 * 10 ^ 304), backup_load_kw_f = Fin (85 * 10 ^ 304),
      load_factor_f = Fin 0, annual_consumption_kwh_f = Fin 1752000\<rparr>"
    by (simp add: analyze_load_f_def request_def to_float_def f_sub_def f_div_def Let_def
        py_round_def round_half_even_def floor_numeral_divide)
  have d: "size_system_f (request ''commercial'' (10 ^ 306) 1752000 85 0 24 False True True)
     \<lparr>peak_demand_kw_f = Fin (10 ^ 306), average_demand_kw_f = Fin 200,
      critical_load_kw_f = Fin (85 * 10 ^ 304), essential_load_kw_f = Fin 0,
      non_critical_load_kw_f = Fin (15 * 10 ^ 304), backup_load_kw_f = Fin (85 * 10 ^ 304),
      load_factor_f = Fin 0, annual_consumption_kwh_f = Fin 1752000\<rparr> =
     Inr \<lparr>solar_pv_kw_f = Fin 0, battery_kw_f = Fin (935 * 10 ^ 303),
      battery_kwh_f = Fin (4 * 10 ^ 306), generator_kw_f = Fin (102 * 10 ^ 304),
      inverter_kw_f = Fin (10285 * 10 ^ 302), total_generation_kw_f = Fin (102 * 10 ^ 304),
      renewable_fraction_f = Fin 0, critical_load_coverage_f = Fin 1\<rparr>"
    by (simp add: size_system_f_def request_def to_float_def f_div_def f_min_def f_max3_def
        Let_def battery_round_trip_efficiency_def solar_capacity_factor_def
        py_round_def round_half_even_def floor_numeral_divide)
  have c: "estimate_costs_f
     \<lparr>solar_pv_kw_f = Fin 0, battery_kw_f = Fin (935 * 10 ^ 303),
      battery_kwh_f = Fin (4 * 10 ^ 306), generator_kw_f = Fin (102 * 10 ^ 304),
      inverter_kw_f = Fin (10285 * 10 ^ 302), total_generation_kw_f = Fin (102 * 10 ^ 304),
      renewable_fraction_f = Fin 0, critical_load_coverage_f = Fin 1\<rparr> =
     Inr \<lparr>solar_pv_cost_f = Fin 0, battery_cost_f = PosInf, generator_cost_f = PosInf,
      inverter_cost_f = Fin (154275 * 10 ^ 303), bos_cost_f = PosInf,
      installation_cost_f = PosInf, total_capital_cost_f = PosInf,
      annual_om_cost_f = PosInf, cost_per_kw_f = PosInf\<rparr>"
    by (simp add: estimate_costs_f_def to_float_def f_div_def Let_def
        solar_pv_per_kw_def battery_per_kwh_def generator_per_kw_def inverter_per_kw_def
        bos_percent_def installation_percent_def om_percent_def
        py_round_def round_half_even_def floor_numeral_divide)
  have n: "net_cost_f
     \<lparr>solar_pv_cost_f = Fin 0, battery_cost_f = PosInf, generator_cost_f = PosInf,
      inverter_cost_f = Fin (154275 * 10 ^ 303), bos_cost_f = PosInf,
      installation_cost_f = PosInf, total_capital_cost_f = PosInf,
      annual_om_cost_f = PosInf, cost_per_kw_f = PosInf\<rparr> = NaN"
    by (simp add: net_cost_f_def f_sub_def Let_def federal_itc_rate_def
        interconnection_fee_commercial_def permit_fee_min_def permit_fee_max_def to_float_def)
  have r: "f_round NaN 2 = NaN" by simp
  have g: "\<not> f_less (Fin 0) NaN" by simp
  show ?thesis by (intro conjI) (rule v la d c n r g)+
qed

text \<open>
  Claim C10, amended. For every valid request with a peak demand of at most
  \<open>10 ^ 300\<close> kW the net cost after incentives is at least the 350 dollars of fixed fees,
  hence strictly positive: the capital cost is 1.35 times the equipment cost, which
  includes the solar and battery costs that the tax credit returns 30% of, and this
  survives the rounding of the three amounts to cents. For these requests the approximate
  IRR is the quotient of the net annual savings by the net cost; its fallback branch is
  not taken.
\<close>

theorem net_cost_at_least_fees_in_range:
  assumes "valid_facility fac" and "peak_demand_kw fac \<le> 10 ^ 300"
  shows "\<exists>la d c fin. analyze_load fac = Inr la \<and> size_system fac la = Inr d \<and>
           estimate_costs d = Inr c \<and> analyze_financials fac d c = Inr fin \<and>
           350 \<le> net_cost c \<and>
           350 \<le> net_cost_after_incentives fin \<and>
           0 < net_cost_after_incentives fin \<and>
           irr fin = py_round (net_annual_savings d c / net_cost c * 100) 2"
proof -
  from valid_chain [OF assms(1)] obtain la d c fin
    where la: "analyze_load fac = Inr la" and d: "size_system fac la = Inr d"
      and c: "estimate_costs d = Inr c" and f: "analyze_financials fac d c = Inr fin"
      and nc: "350 \<le> net_cost c"
    by blast
  note fsel = analyze_financials_sel [OF f]
  have "of_int 350 \<le> py_round (net_cost c) 2"
    using nc by (intro py_round_ge_int) simp
  then have r: "350 \<le> net_cost_after_incentives fin" unfolding fsel(3) by simp
  then have pos: "0 < net_cost_after_incentives fin" by linarith
  have "0 < net_cost c" using nc by linarith
  then have i: "irr fin = py_round (net_annual_savings d c / net_cost c * 100) 2"
    unfolding fsel(2) by simp
  show ?thesis using la d c f nc r pos i by blast
qed

theorem net_cost_at_least_fees_in_range_witness:
  "valid_facility (request ''commercial'' 500 2000000 30 40 24 True True True) \<and>
   peak_demand_kw (request ''commercial'' 500 2000000 30 40 24 True True True) \<le> 10 ^ 300 \<and>
   (\<exists>la d c fin.
      analyze_load (request ''commercial'' 500 2000000 30 40 24 True True True) = Inr la \<and>
      size_system (request ''commercial'' 500 2000000 30 40 24 True True True) la = Inr d \<and>
      estimate_costs d = Inr c \<and>
      analyze_financials (request ''commercial'' 500 2000000 30 40 24 True True True) d c
        = Inr fin \<and>
      350 \<le> net_cost c \<and>
      350 \<le> net_cost_after_incentives fin \<and>
      0 < net_cost_after_incentives fin \<and>
      irr fin = py_round (net_annual_savings d c / net_cost c * 100) 2)"
proof -
  have v: "valid_facility (request ''commercial'' 500 2000000 30 40 24 True True True)"
    by (simp add: valid_facility_def request_def)
  have b: "peak_demand_kw (request ''commercial'' 500 2000000 30 40 24 True True True)
             \<le> 10 ^ 300"
    by (simp add: request_def)
  from net_cost_at_least_fees_in_range [OF v b] show ?thesis
    using v b by blast
qed

end
